theory Spec2Isabelle
  imports Main "HOL-Library.Word"
begin

unbundle bit_operations_syntax

section \<open>SCRAM authentication of the MongoDB driver: data model\<close>

text \<open>
  The source is the driver's \<^verbatim>\<open>scram.ts\<close>: the functions \<^verbatim>\<open>cleanUsername\<close>,
  \<^verbatim>\<open>clientFirstMessageBare\<close>, \<^verbatim>\<open>makeFirstMessage\<close>, \<^verbatim>\<open>executeScram\<close>,
  \<^verbatim>\<open>continueScramConversation\<close>, \<^verbatim>\<open>parsePayload\<close>, \<^verbatim>\<open>passwordDigest\<close>, \<^verbatim>\<open>xor\<close>,
  \<^verbatim>\<open>H\<close>, \<^verbatim>\<open>HMAC\<close>, \<^verbatim>\<open>HI\<close>, \<^verbatim>\<open>compareDigest\<close> and \<^verbatim>\<open>resolveError\<close>.

  A \<^verbatim>\<open>Buffer\<close> (or \<^verbatim>\<open>Uint8Array\<close>) is a list of 8-bit words. A JavaScript string is
  held as the list of the bytes of its UTF-8 encoding, one \<^typ>\<open>char\<close> per byte; this is
  exact for every well-formed string, and \<^verbatim>\<open>split\<close>, \<^verbatim>\<open>replace\<close>, \<^verbatim>\<open>startsWith\<close> and
  concatenation on ASCII separators act on the encoding as they act on the string.
\<close>

type_synonym bytes = "8 word list"

datatype CryptoMethod = sha1 | sha256

text \<open>\<^verbatim>\<open>Buffer.from(text, 'utf8')\<close> and \<^verbatim>\<open>buf.toString()\<close>: with strings held in UTF-8
  both only change the type of the elements.\<close>

definition utf8 :: "string \<Rightarrow> bytes" where
  "utf8 text = map (\<lambda>c. of_nat (of_char c)) text"

definition toString :: "bytes \<Rightarrow> string" where
  "toString buf = map (\<lambda>b. char_of (unat b)) buf"

text \<open>\<^verbatim>\<open>Binary.value()\<close> of the BSON library returns the bytes as a string with one
  character per byte (code units 0 to 255); \<^verbatim>\<open>parsePayload\<close> takes that string and calls
  \<^verbatim>\<open>split\<close> on it. A byte below 128 is the ASCII character; a byte from 128 on is the
  character U+0080 to U+00FF, whose UTF-8 encoding has two bytes.\<close>

definition latin1_char :: "8 word \<Rightarrow> string" where
  "latin1_char b =
     (if b < 0x80 then [char_of (unat b)]
      else [char_of (unat (0xC0 OR drop_bit 6 b)), char_of (unat (0x80 OR (b AND 0x3F)))])"

definition Binary_value :: "bytes \<Rightarrow> string" where
  "Binary_value buf = concat (map latin1_char buf)"

subsection \<open>Base64 text of a buffer\<close>

text \<open>\<^verbatim>\<open>buf.toString('base64')\<close>: the standard alphabet, padded with \<^verbatim>\<open>=\<close>.\<close>

definition b64chars :: string where
  "b64chars = ''ABCDEFGHIJKLMNOPQRSTUVWXYZabcdefghijklmnopqrstuvwxyz0123456789+/''"

definition b64 :: "nat \<Rightarrow> char" where
  "b64 n = b64chars ! n"

fun toBase64 :: "bytes \<Rightarrow> string" where
  "toBase64 [] = []"
| "toBase64 [a] =
     [b64 (unat a div 4), b64 (unat a mod 4 * 16), CHR ''='', CHR ''='']"
| "toBase64 [a, b] =
     [b64 (unat a div 4), b64 (unat a mod 4 * 16 + unat b div 16),
      b64 (unat b mod 16 * 4), CHR ''='']"
| "toBase64 (a # b # c # rest) =
     [b64 (unat a div 4), b64 (unat a mod 4 * 16 + unat b div 16),
      b64 (unat b mod 16 * 4 + unat c div 64), b64 (unat c mod 64)] @ toBase64 rest"

subsection \<open>Numbers as text\<close>

text \<open>The iteration count that \<open>HI\<close> takes is \<open>None\<close> for \<^verbatim>\<open>NaN\<close> and an integer
  otherwise; \<^verbatim>\<open>String(n)\<close> of an integer that JavaScript holds exactly (up to \<open>2^53\<close>) is
  its decimal text.\<close>

definition digit_char :: "nat \<Rightarrow> char" where
  "digit_char d = ''0123456789'' ! d"

fun nat_toString :: "nat \<Rightarrow> string" where
  "nat_toString n = (if n < 10 then [digit_char n] else nat_toString (n div 10) @ [digit_char (n mod 10)])"

definition number_toString :: "int option \<Rightarrow> string" where
  "number_toString n =
     (case n of
        None \<Rightarrow> ''NaN''
      | Some i \<Rightarrow> if i < 0 then CHR ''-'' # nat_toString (nat (- i)) else nat_toString (nat i))"

definition is_digit :: "char \<Rightarrow> bool" where
  "is_digit c = (c \<in> set ''0123456789'')"

definition digit_value :: "char \<Rightarrow> nat" where
  "digit_value c = of_char c - 48"

fun digits_value :: "nat \<Rightarrow> string \<Rightarrow> nat" where
  "digits_value acc [] = acc"
| "digits_value acc (c # cs) = digits_value (acc * 10 + digit_value c) cs"

text \<open>\<^verbatim>\<open>parseInt(s, 10)\<close> skips leading white space, reads an optional sign and the longest
  run of decimal digits, and is \<^verbatim>\<open>NaN\<close> when there is no digit (also for \<^verbatim>\<open>undefined\<close>).
  The white space a \<^verbatim>\<open>Binary\<close> value can hold is tab, line feed, vertical tab, form feed,
  carriage return, space and U+00A0 (the bytes C2 A0 in UTF-8).\<close>

fun skip_space :: "string \<Rightarrow> string" where
  "skip_space [] = []"
| "skip_space [c] = (if of_char c \<in> {9, 10, 11, 12, 13, 32 :: nat} then [] else [c])"
| "skip_space (c # d # cs) =
     (if of_char c \<in> {9, 10, 11, 12, 13, 32 :: nat} then skip_space (d # cs)
      else if of_char c = (0xC2 :: nat) \<and> of_char d = (0xA0 :: nat) then skip_space cs
      else c # d # cs)"

text \<open>What \<^verbatim>\<open>parseInt\<close> returns: \<^verbatim>\<open>NaN\<close>, an integer that a double holds exactly, or the
  double nearest to a longer run of digits (\<^verbatim>\<open>Infinity\<close> for a very long one). The last is
  kept as its sign (true for minus) and the value of the digits read; its magnitude is
  beyond \<open>2^53\<close>.\<close>

datatype jsnumber = NotANumber | Exact int | Rounded bool nat

definition parseInt :: "string option \<Rightarrow> jsnumber" where
  "parseInt v =
     (case v of
        None \<Rightarrow> NotANumber
      | Some s \<Rightarrow>
          (let t = skip_space s;
               neg = (t \<noteq> [] \<and> hd t = CHR ''-'');
               u = (if t \<noteq> [] \<and> (hd t = CHR ''-'' \<or> hd t = CHR ''+'') then tl t else t);
               ds = takeWhile is_digit u;
               n = digits_value 0 ds
           in if ds = [] then NotANumber
              else if int n \<le> 2 ^ 53 then Exact ((if neg then - 1 else 1) * int n)
              else Rounded neg n))"

text \<open>A number is falsy when it is \<^verbatim>\<open>NaN\<close> or 0. A comparison with \<^verbatim>\<open>NaN\<close> is false; a
  rounded number is below a bound of magnitude under \<open>2^53\<close> (the source has 4096) exactly
  when it is negative.\<close>

definition truthy :: "jsnumber \<Rightarrow> bool" where
  "truthy n = (case n of NotANumber \<Rightarrow> False | Exact i \<Rightarrow> i \<noteq> 0 | Rounded neg d \<Rightarrow> True)"

definition number_less :: "jsnumber \<Rightarrow> int \<Rightarrow> bool" where
  "number_less n k = (case n of NotANumber \<Rightarrow> False | Exact i \<Rightarrow> i < k | Rounded neg d \<Rightarrow> neg)"

subsection \<open>String helpers\<close>

text \<open>\<^verbatim>\<open>s.split(sep)\<close> for a one-character separator. The result is never an empty
  array, so the first case below is never taken.\<close>

fun split :: "char \<Rightarrow> string \<Rightarrow> string list" where
  "split sep [] = [[]]"
| "split sep (x # xs) =
     (case split sep xs of
        [] \<Rightarrow> [[x]]
      | p # ps \<Rightarrow> if x = sep then [] # p # ps else (x # p) # ps)"

text \<open>\<^verbatim>\<open>s.replace(pat, by)\<close> with a one-character string pattern: the first occurrence only.\<close>

fun replace :: "char \<Rightarrow> string \<Rightarrow> string \<Rightarrow> string" where
  "replace pat by [] = []"
| "replace pat by (x # xs) = (if x = pat then by @ xs else x # replace pat by xs)"

definition startsWith :: "string \<Rightarrow> string \<Rightarrow> bool" where
  "startsWith s p = (take (length p) s = p)"

text \<open>\<^verbatim>\<open>parts.join(sep)\<close>.\<close>

fun join :: "string \<Rightarrow> string list \<Rightarrow> string" where
  "join sep [] = []"
| "join sep [x] = x"
| "join sep (x # y # ys) = x @ sep @ join sep (y # ys)"

section \<open>The functions of the source\<close>

subsection \<open>cleanUsername, clientFirstMessageBare\<close>

definition cleanUsername :: "string \<Rightarrow> string" where
  "cleanUsername username = replace CHR '','' ''=2C'' (replace CHR ''='' ''=3D'' username)"

definition clientFirstMessageBare :: "string \<Rightarrow> bytes \<Rightarrow> bytes" where
  "clientFirstMessageBare username nonce =
     utf8 ''n='' @ utf8 username @ utf8 '',r='' @ utf8 (toBase64 nonce)"

subsection \<open>parsePayload\<close>

text \<open>The dictionary is a JavaScript object read at the keys \<^verbatim>\<open>r\<close>, \<^verbatim>\<open>s\<close>, \<^verbatim>\<open>i\<close> and
  \<^verbatim>\<open>v\<close>. A key that is absent and a key assigned \<^verbatim>\<open>undefined\<close> both read \<^verbatim>\<open>undefined\<close>
  (\<open>None\<close>). Assigning a string to the key \<^verbatim>\<open>__proto__\<close> of an object literal stores
  nothing.\<close>

type_synonym dict = "string \<Rightarrow> string option"

definition assign :: "dict \<Rightarrow> string \<Rightarrow> string option \<Rightarrow> dict" where
  "assign d k v = (if k = ''__proto__'' then d else d(k := v))"

definition at_index :: "'a list \<Rightarrow> nat \<Rightarrow> 'a option" where
  "at_index xs i = (if i < length xs then Some (xs ! i) else None)"

fun parsePayload_loop :: "string list \<Rightarrow> dict \<Rightarrow> dict" where
  "parsePayload_loop [] d = d"
| "parsePayload_loop (part # parts) d =
     (let valueParts = split CHR ''='' part
      in parsePayload_loop parts (assign d (hd valueParts) (at_index valueParts 1)))"

definition parsePayload :: "string \<Rightarrow> dict" where
  "parsePayload payload = parsePayload_loop (split CHR '','' payload) (\<lambda>k. None)"

subsection \<open>xor\<close>

text \<open>\<^verbatim>\<open>a[i]\<close> beyond the end of a buffer is \<^verbatim>\<open>undefined\<close>, which \<^verbatim>\<open>^\<close> reads as 0.\<close>

definition byte_at :: "bytes \<Rightarrow> nat \<Rightarrow> int" where
  "byte_at a i = (if i < length a then uint (a ! i) else 0)"

function xor_loop :: "bytes \<Rightarrow> bytes \<Rightarrow> nat \<Rightarrow> nat \<Rightarrow> int list \<Rightarrow> int list" where
  "xor_loop a b len i res =
     (if i < len then xor_loop a b len (i + 1) (res @ [byte_at a i XOR byte_at b i]) else res)"
  by pat_completeness auto
termination
  by (relation "measure (\<lambda>(a, b, len, i, res). len - i)") auto

text \<open>\<^verbatim>\<open>Buffer.from(res)\<close> for an array of numbers keeps the low 8 bits of each.\<close>

definition Buffer_from :: "int list \<Rightarrow> bytes" where
  "Buffer_from res = map word_of_int res"

definition xor_bytes :: "bytes \<Rightarrow> bytes \<Rightarrow> bytes" where
  "xor_bytes a b = Buffer_from (xor_loop a b (max (length a) (length b)) 0 [])"

definition xor :: "bytes \<Rightarrow> bytes \<Rightarrow> string" where
  "xor a b = toBase64 (xor_bytes a b)"

subsection \<open>compareDigest\<close>

text \<open>\<^verbatim>\<open>crypto.timingSafeEqual\<close> of Node, called on buffers of one length, is true exactly
  when they hold the same bytes. Whether the function exists depends on the Node version,
  so its presence is an argument.\<close>

definition timingSafeEqual :: "bytes \<Rightarrow> bytes \<Rightarrow> bool" where
  "timingSafeEqual lhs rhs = (lhs = rhs)"

function compareDigest_loop :: "bytes \<Rightarrow> bytes \<Rightarrow> nat \<Rightarrow> int \<Rightarrow> int" where
  "compareDigest_loop lhs rhs i result =
     (if i < length lhs
      then compareDigest_loop lhs rhs (i + 1) (result OR (byte_at lhs i XOR byte_at rhs i))
      else result)"
  by pat_completeness auto
termination
  by (relation "measure (\<lambda>(lhs, rhs, i, result). length lhs - i)") auto

definition compareDigest :: "bool \<Rightarrow> bytes \<Rightarrow> bytes \<Rightarrow> bool" where
  "compareDigest has_timingSafeEqual lhs rhs =
     (if length lhs \<noteq> length rhs then False
      else if has_timingSafeEqual then timingSafeEqual lhs rhs
      else compareDigest_loop lhs rhs 0 0 = 0)"

subsection \<open>The functions of Node's crypto module and of the optional saslprep module\<close>

text \<open>Hashing, HMAC, PBKDF2, MD5, base64 decoding and SASLprep are library code, not code
  of the driver: the driver's functions take them as a parameter. \<open>pbkdf2Sync\<close> is \<open>None\<close>
  where Node throws (it validates the iteration count); \<open>saslprep\<close> is \<open>None\<close> when the
  module could not be loaded, and the module itself throws on a prohibited character. For
  an iteration count beyond \<open>2^53\<close>, given by its sign and the digits read, \<open>double_text\<close>
  is the text JavaScript prints for the double that holds it and \<open>pbkdf2Sync_rounded\<close> is
  \<^verbatim>\<open>pbkdf2Sync\<close> called with that double.\<close>

record platform =
  pbkdf2Sync :: "string \<Rightarrow> bytes \<Rightarrow> int option \<Rightarrow> nat \<Rightarrow> CryptoMethod \<Rightarrow> bytes option"
  createHmac :: "CryptoMethod \<Rightarrow> bytes \<Rightarrow> bytes \<Rightarrow> bytes"
  createHash :: "CryptoMethod \<Rightarrow> bytes \<Rightarrow> bytes"
  md5_hex :: "string \<Rightarrow> string"
  saslprep :: "(string \<Rightarrow> string option) option"
  fromBase64 :: "string \<Rightarrow> bytes"
  has_timingSafeEqual :: bool
  double_text :: "bool \<Rightarrow> nat \<Rightarrow> string"
  pbkdf2Sync_rounded :: "string \<Rightarrow> bytes \<Rightarrow> bool \<Rightarrow> nat \<Rightarrow> nat \<Rightarrow> CryptoMethod \<Rightarrow> bytes option"

definition H :: "platform \<Rightarrow> CryptoMethod \<Rightarrow> bytes \<Rightarrow> bytes" where
  "H P method text = createHash P method text"

definition HMAC :: "platform \<Rightarrow> CryptoMethod \<Rightarrow> bytes \<Rightarrow> bytes \<Rightarrow> bytes" where
  "HMAC P method key text = createHmac P method key text"

subsection \<open>Errors, replies and commands\<close>

text \<open>A reply document, with the fields the driver reads: whether \<^verbatim>\<open>$err\<close> or \<^verbatim>\<open>errmsg\<close>
  is set, \<^verbatim>\<open>conversationId\<close>, the bytes of \<^verbatim>\<open>payload\<close> and \<^verbatim>\<open>done\<close> (\<open>doc_done\<close>: absent, true or
  false). The payload is binary data; a server-first payload that arrives as a \<^verbatim>\<open>Buffer\<close>
  is wrapped into a \<^verbatim>\<open>Binary\<close> of the same bytes.\<close>

record Document =
  has_err :: bool
  conversationId :: int
  payload :: bytes
  doc_done :: "bool option"

datatype error =
    MongoError string
  | MongoServerError Document
  | ConnectionError string

text \<open>What \<^verbatim>\<open>connection.command\<close> hands to its callback: an error, or a result.\<close>

datatype reply = Failure string | Result Document

text \<open>A command: \<^verbatim>\<open>saslStart\<close> with its mechanism and payload (\<^verbatim>\<open>autoAuthorize\<close> and
  \<^verbatim>\<open>options\<close> are constants), or \<^verbatim>\<open>saslContinue\<close> with its conversation id and payload.\<close>

datatype command =
    SaslStart string bytes
  | SaslContinue int bytes

text \<open>How a call ends: the callback is called with an error or with a reply document, the
  connection itself calls the callback with its reply, an exception escapes, or the
  connection has not answered (the list of its replies is used up).\<close>

datatype outcome =
    CallbackError error
  | CallbackResult Document
  | CallbackReply reply
  | Thrown string
  | Pending

record MongoCredentials =
  username :: string
  password :: string
  source :: string

record AuthContext =
  credentials :: MongoCredentials
  nonce :: "bytes option"
  speculativeAuthenticate :: "Document option"

fun resolveError :: "reply \<Rightarrow> error option" where
  "resolveError (Failure err) = Some (ConnectionError err)"
| "resolveError (Result r) = (if has_err r then Some (MongoServerError r) else None)"

subsection \<open>passwordDigest\<close>

text \<open>Both arguments are strings (the declared parameter type), so of the three checks
  only the one for the empty password can fail.\<close>

definition passwordDigest :: "platform \<Rightarrow> string \<Rightarrow> string \<Rightarrow> error + string" where
  "passwordDigest P user pwd =
     (if length pwd = 0 then Inl (MongoError ''password cannot be empty'')
      else Inr (md5_hex P (user @ '':mongo:'' @ pwd)))"

subsection \<open>HI and its cache\<close>

record HICache =
  hiCache :: "string \<Rightarrow> bytes option"
  hiCacheCount :: nat

definition hiCachePurge :: HICache where
  "hiCachePurge = \<lparr>hiCache = (\<lambda>k. None), hiCacheCount = 0\<rparr>"

fun hiLengthMap :: "CryptoMethod \<Rightarrow> nat" where
  "hiLengthMap sha256 = 32"
| "hiLengthMap sha1 = 20"

definition HI_key :: "string \<Rightarrow> bytes \<Rightarrow> int option \<Rightarrow> string" where
  "HI_key data salt iterations = join ''_'' [data, toBase64 salt, number_toString iterations]"

text \<open>The result is \<open>None\<close> when \<open>pbkdf2Sync\<close> throws; the cache is then as it was.\<close>

definition HI ::
  "platform \<Rightarrow> HICache \<Rightarrow> string \<Rightarrow> bytes \<Rightarrow> int option \<Rightarrow> CryptoMethod \<Rightarrow> (HICache \<times> bytes) option"
where
  "HI P cache data salt iterations cryptoMethod =
     (let key = HI_key data salt iterations
      in case hiCache cache key of
           Some hit \<Rightarrow> Some (cache, hit)
         | None \<Rightarrow>
             (case pbkdf2Sync P data salt iterations (hiLengthMap cryptoMethod) cryptoMethod of
                None \<Rightarrow> None
              | Some saltedData \<Rightarrow>
                  (let c = (if hiCacheCount cache \<ge> 200 then hiCachePurge else cache)
                   in Some (\<lparr>hiCache = (hiCache c)(key := Some saltedData),
                             hiCacheCount = hiCacheCount c + 1\<rparr>, saltedData))))"

text \<open>\<open>HI\<close> on what \<^verbatim>\<open>parseInt\<close> returned. For a rounded iteration count the same
  function body runs with the text of the double in the key.\<close>

definition number_text :: "platform \<Rightarrow> jsnumber \<Rightarrow> string" where
  "number_text P n =
     (case n of
        NotANumber \<Rightarrow> number_toString None
      | Exact i \<Rightarrow> number_toString (Some i)
      | Rounded neg d \<Rightarrow> double_text P neg d)"

definition HI_rounded ::
  "platform \<Rightarrow> HICache \<Rightarrow> string \<Rightarrow> bytes \<Rightarrow> bool \<Rightarrow> nat \<Rightarrow> CryptoMethod \<Rightarrow> (HICache \<times> bytes) option"
where
  "HI_rounded P cache data salt neg d cryptoMethod =
     (let key = join ''_'' [data, toBase64 salt, double_text P neg d]
      in case hiCache cache key of
           Some hit \<Rightarrow> Some (cache, hit)
         | None \<Rightarrow>
             (case pbkdf2Sync_rounded P data salt neg d (hiLengthMap cryptoMethod) cryptoMethod of
                None \<Rightarrow> None
              | Some saltedData \<Rightarrow>
                  (let c = (if hiCacheCount cache \<ge> 200 then hiCachePurge else cache)
                   in Some (\<lparr>hiCache = (hiCache c)(key := Some saltedData),
                             hiCacheCount = hiCacheCount c + 1\<rparr>, saltedData))))"

definition HI_number ::
  "platform \<Rightarrow> HICache \<Rightarrow> string \<Rightarrow> bytes \<Rightarrow> jsnumber \<Rightarrow> CryptoMethod \<Rightarrow> (HICache \<times> bytes) option"
where
  "HI_number P cache data salt iterations cryptoMethod =
     (case iterations of
        NotANumber \<Rightarrow> HI P cache data salt None cryptoMethod
      | Exact i \<Rightarrow> HI P cache data salt (Some i) cryptoMethod
      | Rounded neg d \<Rightarrow> HI_rounded P cache data salt neg d cryptoMethod)"

subsection \<open>makeFirstMessage\<close>

definition makeFirstMessage :: "CryptoMethod \<Rightarrow> MongoCredentials \<Rightarrow> bytes \<Rightarrow> command" where
  "makeFirstMessage cryptoMethod creds nonce_bytes =
     (let user = cleanUsername (username creds);
          mechanism = (if cryptoMethod = sha1 then ''SCRAM-SHA-1'' else ''SCRAM-SHA-256'')
      in SaslStart mechanism (utf8 ''n,,'' @ clientFirstMessageBare user nonce_bytes))"

subsection \<open>continueScramConversation\<close>

text \<open>One run of the function returns the cache, the commands it submitted, each with its
  namespace, and how it ended.\<close>

record attempt =
  cache :: HICache
  submitted :: "(string \<times> command) list"
  outcome :: outcome

text \<open>The callback of the \<^verbatim>\<open>saslContinue\<close> command (the arrow function of lines 202 to
  226): \<open>replies\<close> are the later replies of the connection.\<close>

definition saslContinue_callback ::
  "platform \<Rightarrow> string \<Rightarrow> bytes \<Rightarrow> reply \<Rightarrow> reply list \<Rightarrow> (string \<times> command) list \<times> outcome"
where
  "saslContinue_callback P db serverSignature rep replies =
     (case resolveError rep of
        Some err \<Rightarrow> ([], CallbackError err)
      | None \<Rightarrow>
          (case rep of
             Failure e \<Rightarrow> ([], Thrown ''TypeError'')
           | Result r \<Rightarrow>
               (let parsedResponse = parsePayload (Binary_value (payload r))
                in case parsedResponse ''v'' of
                     None \<Rightarrow> ([], Thrown ''TypeError'')
                   | Some v \<Rightarrow>
                       if \<not> compareDigest (has_timingSafeEqual P) (fromBase64 P v) serverSignature
                       then ([], CallbackError (MongoError ''Server returned an invalid signature''))
                       else if doc_done r \<noteq> Some False then ([], CallbackResult r)
                       else
                         (let retrySaslContinueCmd = SaslContinue (conversationId r) []
                          in case replies of
                               [] \<Rightarrow> ([(db @ ''.$cmd'', retrySaslContinueCmd)], Pending)
                             | rep2 # rest \<Rightarrow>
                                 ([(db @ ''.$cmd'', retrySaslContinueCmd)], CallbackReply rep2)))))"

text \<open>The body up to the \<^verbatim>\<open>saslContinue\<close> command (lines 133 to 200): either the run ends
  there, or it has the command to submit and the server signature it expects.
  \<open>processPassword\<close> is the preparation of the password (lines 144 to 153), where an
  error of \<^verbatim>\<open>passwordDigest\<close> goes to the callback and one of \<^verbatim>\<open>saslprep\<close> escapes. A
  missing \<^verbatim>\<open>r\<close> or \<^verbatim>\<open>s\<close> is \<^verbatim>\<open>undefined\<close>, on which \<^verbatim>\<open>startsWith\<close> and
  \<^verbatim>\<open>Buffer.from\<close> throw a \<^verbatim>\<open>TypeError\<close>. In the \<^verbatim>\<open>authMessage\<close>,
  \<^verbatim>\<open>payload.value()\<close> is a string already, so \<^verbatim>\<open>toString('base64')\<close> on it returns the same
  string (the argument is ignored by a string's \<^verbatim>\<open>toString\<close>).\<close>

record client_final =
  final_cache :: HICache
  saslContinueCmd :: command
  serverSignature :: bytes

definition processPassword :: "platform \<Rightarrow> CryptoMethod \<Rightarrow> string \<Rightarrow> string \<Rightarrow> outcome + string" where
  "processPassword P cryptoMethod user pwd =
     (if cryptoMethod = sha256
      then (case saslprep P of
              None \<Rightarrow> Inr pwd
            | Some prep \<Rightarrow> (case prep pwd of None \<Rightarrow> Inl (Thrown ''saslprep'') | Some t \<Rightarrow> Inr t))
      else (case passwordDigest P user pwd of
              Inl e \<Rightarrow> Inl (CallbackError e)
            | Inr t \<Rightarrow> Inr t))"

definition clientFinal ::
  "platform \<Rightarrow> HICache \<Rightarrow> CryptoMethod \<Rightarrow> Document \<Rightarrow> AuthContext \<Rightarrow> outcome + client_final"
where
  "clientFinal P c cryptoMethod response authContext =
     (case nonce authContext of
        None \<Rightarrow> Inl (CallbackError (MongoError ''Unable to continue SCRAM without valid nonce''))
      | Some nonce_bytes \<Rightarrow>
          (let user = cleanUsername (username (credentials authContext));
               pwd = password (credentials authContext)
           in case processPassword P cryptoMethod user pwd of
                Inl out \<Rightarrow> Inl out
              | Inr processedPassword \<Rightarrow>
                  (let payload_text = Binary_value (payload response);
                       d = parsePayload payload_text;
                       iterations = parseInt (d ''i'')
                   in if truthy iterations \<and> number_less iterations 4096
                      then Inl (CallbackError (MongoError
                             (''Server returned an invalid iteration count '' @ number_text P iterations)))
                      else
                        (case d ''r'' of
                           None \<Rightarrow> Inl (Thrown ''TypeError'')
                         | Some rnonce \<Rightarrow>
                             if startsWith rnonce ''nonce''
                             then Inl (CallbackError (MongoError
                                    (''Server returned an invalid nonce: '' @ rnonce)))
                             else
                               (let withoutProof = ''c=biws,r='' @ rnonce
                                in case d ''s'' of
                                     None \<Rightarrow> Inl (Thrown ''TypeError'')
                                   | Some salt \<Rightarrow>
                                       (case HI_number P c processedPassword (fromBase64 P salt) iterations cryptoMethod of
                                          None \<Rightarrow> Inl (Thrown ''pbkdf2Sync'')
                                        | Some (c', saltedPassword) \<Rightarrow>
                                            (let clientKey = HMAC P cryptoMethod saltedPassword (utf8 ''Client Key'');
                                                 serverKey = HMAC P cryptoMethod saltedPassword (utf8 ''Server Key'');
                                                 storedKey = H P cryptoMethod clientKey;
                                                 authMessage =
                                                   join '',''
                                                     [toString (clientFirstMessageBare user nonce_bytes),
                                                      payload_text, withoutProof];
                                                 clientSignature = HMAC P cryptoMethod storedKey (utf8 authMessage);
                                                 clientProof = ''p='' @ xor clientKey clientSignature;
                                                 clientFinalMessage = join '','' [withoutProof, clientProof]
                                             in Inr \<lparr>final_cache = c',
                                                     saslContinueCmd =
                                                       SaslContinue (conversationId response) (utf8 clientFinalMessage),
                                                     serverSignature =
                                                       HMAC P cryptoMethod serverKey (utf8 authMessage)\<rparr>)))))))"

definition continueScramConversation ::
  "platform \<Rightarrow> HICache \<Rightarrow> CryptoMethod \<Rightarrow> Document \<Rightarrow> AuthContext \<Rightarrow> reply list \<Rightarrow> attempt"
where
  "continueScramConversation P c cryptoMethod response authContext replies =
     (case clientFinal P c cryptoMethod response authContext of
        Inl out \<Rightarrow> \<lparr>cache = c, submitted = [], outcome = out\<rparr>
      | Inr cf \<Rightarrow>
          (let db = source (credentials authContext);
               first = (db @ ''.$cmd'', saslContinueCmd cf)
           in case replies of
                [] \<Rightarrow> \<lparr>cache = final_cache cf, submitted = [first], outcome = Pending\<rparr>
              | rep # rest \<Rightarrow>
                  (let (later, out) = saslContinue_callback P db (serverSignature cf) rep rest
                   in \<lparr>cache = final_cache cf, submitted = first # later, outcome = out\<rparr>)))"

subsection \<open>executeScram\<close>

definition executeScram ::
  "platform \<Rightarrow> HICache \<Rightarrow> CryptoMethod \<Rightarrow> AuthContext \<Rightarrow> reply list \<Rightarrow> attempt"
where
  "executeScram P c cryptoMethod authContext replies =
     (case nonce authContext of
        None \<Rightarrow>
          \<lparr>cache = c, submitted = [],
           outcome = CallbackError (MongoError ''AuthContext must contain a valid nonce property'')\<rparr>
      | Some nonce_bytes \<Rightarrow>
          (let db = source (credentials authContext);
               saslStartCmd = makeFirstMessage cryptoMethod (credentials authContext) nonce_bytes;
               first = (db @ ''.$cmd'', saslStartCmd)
           in case replies of
                [] \<Rightarrow> \<lparr>cache = c, submitted = [first], outcome = Pending\<rparr>
              | rep # rest \<Rightarrow>
                  (case resolveError rep of
                     Some err \<Rightarrow> \<lparr>cache = c, submitted = [first], outcome = CallbackError err\<rparr>
                   | None \<Rightarrow>
                       (case rep of
                          Failure e \<Rightarrow> \<lparr>cache = c, submitted = [first], outcome = Thrown ''TypeError''\<rparr>
                        | Result r \<Rightarrow>
                            (let a = continueScramConversation P c cryptoMethod r authContext rest
                             in a\<lparr>submitted := first # submitted a\<rparr>)))))"

text \<open>\<^verbatim>\<open>ScramSHA.auth\<close>: the speculative reply of the handshake, when there is one, is the
  server-first message.\<close>

definition auth ::
  "platform \<Rightarrow> HICache \<Rightarrow> CryptoMethod \<Rightarrow> AuthContext \<Rightarrow> reply list \<Rightarrow> attempt"
where
  "auth P c cryptoMethod authContext replies =
     (case speculativeAuthenticate authContext of
        Some response \<Rightarrow> continueScramConversation P c cryptoMethod response authContext replies
      | None \<Rightarrow> executeScram P c cryptoMethod authContext replies)"

section \<open>A stand-in for the library functions\<close>

text \<open>To run the driver's functions on concrete inputs the library functions need values.
  \<open>test_platform\<close> is a test double: its digests have the length of the real ones and
  depend on the method and on a checksum of their arguments, \<open>pbkdf2Sync\<close> throws on a
  missing or non-positive iteration count and on one beyond \<open>2^53\<close> (for which it prints
  the digits read), and base64 is decoded over the standard alphabet (other characters
  are skipped). It is not cryptographic; the theorems about all
  inputs hold for every platform.\<close>

fun index_of :: "'a list \<Rightarrow> 'a \<Rightarrow> nat" where
  "index_of [] c = 0"
| "index_of (x # xs) c = (if x = c then 0 else Suc (index_of xs c))"

fun sextets_bytes :: "nat list \<Rightarrow> bytes" where
  "sextets_bytes (p # q # r # s # rest) =
     [of_nat (p * 4 + q div 16), of_nat (q mod 16 * 16 + r div 4), of_nat (r mod 4 * 64 + s)]
       @ sextets_bytes rest"
| "sextets_bytes [p, q, r] = [of_nat (p * 4 + q div 16), of_nat (q mod 16 * 16 + r div 4)]"
| "sextets_bytes [p, q] = [of_nat (p * 4 + q div 16)]"
| "sextets_bytes _ = []"

definition decodeBase64 :: "string \<Rightarrow> bytes" where
  "decodeBase64 s = sextets_bytes (map (index_of b64chars) (filter (\<lambda>c. c \<in> set b64chars) s))"

definition method_tag :: "CryptoMethod \<Rightarrow> 8 word" where
  "method_tag m = (if m = sha1 then 1 else 2)"

definition checksum :: "bytes \<Rightarrow> 8 word" where
  "checksum buf = sum_list buf"

definition test_platform :: platform where
  "test_platform =
     \<lparr>pbkdf2Sync = (\<lambda>data salt iterations keylen m.
         case iterations of
           None \<Rightarrow> None
         | Some n \<Rightarrow> if n < 1 then None
                     else Some (replicate keylen
                            (method_tag m + checksum (utf8 data) + checksum salt + word_of_int n))),
      createHmac = (\<lambda>m key text. replicate (hiLengthMap m) (method_tag m + checksum key + 3 * checksum text)),
      createHash = (\<lambda>m text. replicate (hiLengthMap m) (method_tag m + 5 * checksum text)),
      md5_hex = (\<lambda>text. replicate 32 (digit_char (unat (checksum (utf8 text)) mod 10))),
      saslprep = Some (\<lambda>text. Some text),
      fromBase64 = decodeBase64,
      has_timingSafeEqual = True,
      double_text = (\<lambda>neg d. (if neg then ''-'' else []) @ nat_toString d),
      pbkdf2Sync_rounded = (\<lambda>data salt neg d keylen m. None)\<rparr>"

definition empty_cache :: HICache where
  "empty_cache = \<lparr>hiCache = (\<lambda>k. None), hiCacheCount = 0\<rparr>"

section \<open>Example inputs\<close>

text \<open>A user, a nonce of three bytes (\<^verbatim>\<open>AQID\<close> in base64) and replies of a server, for the
  theorems at concrete inputs.\<close>

definition example_context :: AuthContext where
  "example_context =
     \<lparr>credentials = \<lparr>username = ''user'', password = ''pencil'', source = ''admin''\<rparr>,
      nonce = Some [1, 2, 3], speculativeAuthenticate = None\<rparr>"

definition server_first :: "string \<Rightarrow> Document" where
  "server_first text =
     \<lparr>has_err = False, conversationId = 1, payload = utf8 text, doc_done = Some False\<rparr>"

definition server_final :: "string \<Rightarrow> bool option \<Rightarrow> Document" where
  "server_final text d =
     \<lparr>has_err = False, conversationId = 1, payload = utf8 text, doc_done = d\<rparr>"

definition empty_password_context :: AuthContext where
  "empty_password_context =
     \<lparr>credentials = \<lparr>username = ''user'', password = '''', source = ''admin''\<rparr>,
      nonce = Some [1, 2, 3], speculativeAuthenticate = None\<rparr>"

text \<open>A prepared password of 32 hexadecimal digits (the shape of the MD5 digest that SHA-1
  uses, and a text a SHA-256 user may have as password), and the cache after one call of
  \<open>HI\<close> for it with SHA-1, the salt \<^verbatim>\<open>QUJD\<close> and 4096 iterations on \<open>test_platform\<close>.\<close>

definition hex_password :: string where
  "hex_password = ''5f4dcc3b5aa765d61d8327deb882cf99''"

definition cache_after_sha1 :: HICache where
  "cache_after_sha1 =
     \<lparr>hiCache = (\<lambda>k. None)(HI_key hex_password [65, 66, 67] (Some 4096) := Some (replicate 20 249)),
      hiCacheCount = 1\<rparr>"

text \<open>A server-first message with an extension attribute that holds the byte E9.\<close>

definition latin1_server_first :: Document where
  "latin1_server_first =
     \<lparr>has_err = False, conversationId = 1,
      payload = utf8 ''r=AQIDxyz,s=QUJD,i=4096,x='' @ [0xE9], doc_done = Some False\<rparr>"

section \<open>Properties\<close>

declare compareDigest_loop.simps [simp del]
declare xor_loop.simps [simp del]
declare nat_toString.simps [simp del]

subsection \<open>compareDigest\<close>

lemma byte_at_xor_zero: "byte_at a j XOR byte_at b j = 0 \<longleftrightarrow> byte_at a j = byte_at b j"
  by (metis bit.xor_self xor.left_commute xor.right_neutral)

lemma compareDigest_loop_zero:
  "compareDigest_loop lhs rhs i result = 0 \<longleftrightarrow>
     result = 0 \<and> (\<forall>j. i \<le> j \<and> j < length lhs \<longrightarrow> byte_at lhs j = byte_at rhs j)"
proof (induction lhs rhs i result rule: compareDigest_loop.induct)
  case (1 lhs rhs i result)
  show ?case
  proof (cases "i < length lhs")
    case True
    have "compareDigest_loop lhs rhs i result =
          compareDigest_loop lhs rhs (i + 1) (result OR (byte_at lhs i XOR byte_at rhs i))"
      using True by (simp add: compareDigest_loop.simps [of lhs rhs i])
    also have "\<dots> = 0 \<longleftrightarrow> (result OR (byte_at lhs i XOR byte_at rhs i)) = 0 \<and>
        (\<forall>j. i + 1 \<le> j \<and> j < length lhs \<longrightarrow> byte_at lhs j = byte_at rhs j)"
      using "1.IH" [OF True] .
    also have "\<dots> \<longleftrightarrow> result = 0 \<and> byte_at lhs i = byte_at rhs i \<and>
        (\<forall>j. i + 1 \<le> j \<and> j < length lhs \<longrightarrow> byte_at lhs j = byte_at rhs j)"
      by (simp add: or_eq_0_iff byte_at_xor_zero)
    also have "\<dots> \<longleftrightarrow> result = 0 \<and>
        (\<forall>j. i \<le> j \<and> j < length lhs \<longrightarrow> byte_at lhs j = byte_at rhs j)"
    proof -
      have "i \<le> j \<longleftrightarrow> j = i \<or> i + 1 \<le> j" for j by auto
      then show ?thesis using True by auto
    qed
    finally show ?thesis .
  next
    case False
    then show ?thesis by (simp add: compareDigest_loop.simps [of lhs rhs i])
  qed
qed

lemma byte_at_eq:
  "i < length a \<Longrightarrow> i < length b \<Longrightarrow> byte_at a i = byte_at b i \<longleftrightarrow> a ! i = b ! i"
  by (simp add: byte_at_def word_uint_eq_iff)

lemma compareDigest_loop_eq:
  "length lhs = length rhs \<Longrightarrow> compareDigest_loop lhs rhs 0 0 = 0 \<longleftrightarrow> lhs = rhs"
  by (auto simp: compareDigest_loop_zero list_eq_iff_nth_eq byte_at_eq)

lemma compareDigest_iff: "compareDigest native lhs rhs \<longleftrightarrow> lhs = rhs"
  by (auto simp: compareDigest_def timingSafeEqual_def compareDigest_loop_eq)

text \<open>Claim C4. \<open>compareDigest\<close> is false whenever the two inputs differ in length, true
  when they are byte for byte equal, and false for two distinct inputs of one length. This
  holds with \<^verbatim>\<open>crypto.timingSafeEqual\<close> and with the loop that replaces it.\<close>

theorem compareDigest_correct:
  "(length a \<noteq> length b \<longrightarrow> \<not> compareDigest native a b) \<and>
   compareDigest native x x \<and>
   (length y = length z \<and> y \<noteq> z \<longrightarrow> \<not> compareDigest native y z)"
  by (auto simp: compareDigest_iff)

text \<open>Claim C4 at concrete buffers, with the loop (no \<^verbatim>\<open>timingSafeEqual\<close>).\<close>

theorem compareDigest_correct_witness:
  "length [1, 2 :: 8 word] \<noteq> length [1, 2, 3 :: 8 word] \<and>
   \<not> compareDigest False [1, 2] [1, 2, 3] \<and>
   compareDigest False [7, 8, 9] [7, 8, 9] \<and>
   length [7, 8, 9 :: 8 word] = length [7, 8, 1 :: 8 word] \<and>
   \<not> compareDigest False [7, 8, 9] [7, 8, 1]"
  using compareDigest_correct [of "[1, 2]" "[1, 2, 3]" False "[7, 8, 9]" "[7, 8, 9]" "[7, 8, 1]"]
  by simp

subsection \<open>xor\<close>

lemma xor_loop_eq:
  "xor_loop a b len i res = res @ map (\<lambda>j. byte_at a j XOR byte_at b j) [i..<len]"
proof (induction a b len i res rule: xor_loop.induct)
  case (1 a b len i res)
  show ?case
  proof (cases "i < len")
    case True
    then show ?thesis
      using "1.IH" [OF True] by (simp add: xor_loop.simps [of a b len i] upt_conv_Cons)
  next
    case False
    then show ?thesis by (simp add: xor_loop.simps [of a b len i])
  qed
qed

lemma length_xor_bytes: "length (xor_bytes a b) = max (length a) (length b)"
  by (simp add: xor_bytes_def Buffer_from_def xor_loop_eq)

lemma nth_xor_bytes:
  "i < max (length a) (length b) \<Longrightarrow>
   xor_bytes a b ! i = word_of_int (byte_at a i XOR byte_at b i)"
  by (simp add: xor_bytes_def Buffer_from_def xor_loop_eq)

lemma nth_xor_bytes_same:
  "length a = length b \<Longrightarrow> i < length a \<Longrightarrow> xor_bytes a b ! i = a ! i XOR b ! i"
  by (simp add: nth_xor_bytes byte_at_def word_of_int_uint flip: uint_xor)

lemma xor_bytes_involution:
  "length a = length b \<Longrightarrow> xor_bytes a (xor_bytes a b) = b"
  by (rule nth_equalityI) (simp_all add: length_xor_bytes nth_xor_bytes_same flip: xor.assoc)

text \<open>Claim C9, refuted as stated: on buffers of lengths 2 and 1 \<open>xor\<close> rejects nothing. It
  reads the missing byte as 0 and returns the base64 text of the two bytes.\<close>

theorem xor_pads_counterexample:
  "length [1, 2 :: 8 word] \<noteq> length [3 :: 8 word] \<and>
   xor [1, 2] [3] = toBase64 [2, 2] \<and> xor [1, 2] [3] = ''AgI=''"
  by (simp add: xor_def xor_bytes_def xor_loop.simps Buffer_from_def byte_at_def b64_def b64chars_def)

text \<open>Claim C9, amended. \<open>xor\<close> returns the base64 text of the byte-wise XOR. The XOR has
  the length of the longer input, a byte missing in the shorter one counting as 0. For
  inputs of one length, XOR-ing \<open>a\<close> with the XOR of \<open>a\<close> and \<open>b\<close> gives \<open>b\<close> back.\<close>

theorem xor_amended:
  "xor a b = toBase64 (xor_bytes a b) \<and>
   length (xor_bytes a b) = max (length a) (length b) \<and>
   (\<forall>i. i < max (length a) (length b) \<longrightarrow>
        xor_bytes a b ! i = word_of_int (byte_at a i XOR byte_at b i)) \<and>
   (length a = length b \<longrightarrow> xor_bytes a (xor_bytes a b) = b)"
  by (simp add: xor_def length_xor_bytes nth_xor_bytes xor_bytes_involution)

text \<open>Claim C9, amended, at the buffers 01 02 and 03 04.\<close>

theorem xor_amended_witness:
  "xor [1, 2] [3, 4] = ''AgY='' \<and> xor_bytes [1, 2] [3, 4] = [2, 6] \<and>
   length [1, 2 :: 8 word] = length [3, 4 :: 8 word] \<and>
   xor_bytes [1, 2] (xor_bytes [1, 2] [3, 4]) = [3, 4]"
  using xor_amended [of "[1, 2]" "[3, 4]"]
  by (simp add: xor_bytes_def xor_loop.simps Buffer_from_def byte_at_def b64_def b64chars_def)

subsection \<open>parsePayload\<close>

text \<open>Claim C7, at the inputs where the code departs from it. \<open>parsePayload\<close> splits an
  element on every \<^verbatim>\<open>=\<close> and keeps the second piece only, so the padding of a base64 value
  and everything after a second \<^verbatim>\<open>=\<close> are lost.\<close>

theorem parsePayload_second_equals:
  "parsePayload ''r=abc,s=XYZ==,i=4096'' ''s'' = Some ''XYZ'' \<and>
   parsePayload ''r=ab=cd,s=QUJD,i=4096'' ''r'' = Some ''ab''"
  by (simp add: parsePayload_def assign_def at_index_def)

subsection \<open>A missing nonce\<close>

text \<open>Claim C10. When the nonce of the \<open>AuthContext\<close> is absent, \<open>executeScram\<close> and
  \<open>continueScramConversation\<close> both call the callback with an error at once: no command is
  submitted to the connection and the cache is as it was.\<close>

theorem nonce_absent:
  "nonce authContext = None \<Longrightarrow>
   executeScram P c m authContext replies =
     \<lparr>cache = c, submitted = [],
      outcome = CallbackError (MongoError ''AuthContext must contain a valid nonce property'')\<rparr> \<and>
   continueScramConversation P c m response authContext replies' =
     \<lparr>cache = c, submitted = [],
      outcome = CallbackError (MongoError ''Unable to continue SCRAM without valid nonce'')\<rparr>"
  by (simp add: executeScram_def continueScramConversation_def clientFinal_def)

text \<open>Claim C10 for the example user without a nonce, on the full path and on the
  speculative one.\<close>

theorem nonce_absent_witness:
  "nonce (example_context\<lparr>nonce := None\<rparr>) = None \<and>
   submitted (executeScram test_platform empty_cache sha1 (example_context\<lparr>nonce := None\<rparr>)
     [Result (server_first ''r=AQIDxyz,s=QUJD,i=4096'')]) = [] \<and>
   submitted (continueScramConversation test_platform empty_cache sha256
     (server_first ''r=AQIDxyz,s=QUJD,i=4096'') (example_context\<lparr>nonce := None\<rparr>) []) = []"
  using nonce_absent [of "example_context\<lparr>nonce := None\<rparr>" test_platform empty_cache sha1
      "[Result (server_first ''r=AQIDxyz,s=QUJD,i=4096'')]"]
    nonce_absent [of "example_context\<lparr>nonce := None\<rparr>" test_platform empty_cache sha256
      "[]" "server_first ''r=AQIDxyz,s=QUJD,i=4096''" "[]"]
  by simp


subsection \<open>The steps of continueScramConversation\<close>

lemma clientFinal_weak:
  assumes "nonce ctx = Some nb"
    and "processPassword P m (cleanUsername (username (credentials ctx))) (password (credentials ctx)) = Inr pp"
    and "parseInt (parsePayload (Binary_value (payload response)) ''i'') = it"
    and "truthy it \<and> number_less it 4096"
  shows "clientFinal P c m response ctx =
           Inl (CallbackError (MongoError
             (''Server returned an invalid iteration count '' @ number_text P it)))"
  using assms by (simp add: clientFinal_def)

lemma clientFinal_success:
  assumes "nonce ctx = Some nb"
    and "processPassword P m (cleanUsername (username (credentials ctx))) (password (credentials ctx)) = Inr pp"
    and "parseInt (parsePayload (Binary_value (payload response)) ''i'') = it"
    and "\<not> (truthy it \<and> number_less it 4096)"
    and "parsePayload (Binary_value (payload response)) ''r'' = Some r"
    and "\<not> startsWith r ''nonce''"
    and "parsePayload (Binary_value (payload response)) ''s'' = Some s"
    and "HI_number P c pp (fromBase64 P s) it m = Some (c', sp)"
    and "authMessage = toString (clientFirstMessageBare (cleanUsername (username (credentials ctx))) nb)
            @ '','' @ Binary_value (payload response) @ '','' @ ''c=biws,r='' @ r"
    and "clientKey = HMAC P m sp (utf8 ''Client Key'')"
    and "serverKey = HMAC P m sp (utf8 ''Server Key'')"
    and "storedKey = H P m clientKey"
  shows "clientFinal P c m response ctx =
           Inr \<lparr>final_cache = c',
                saslContinueCmd = SaslContinue (conversationId response)
                  (utf8 (''c=biws,r='' @ r @ '',p='' @ xor clientKey (HMAC P m storedKey (utf8 authMessage)))),
                serverSignature = HMAC P m serverKey (utf8 authMessage)\<rparr>"
  using assms by (simp add: clientFinal_def Let_def)

lemma clientFinal_throws:
  assumes "nonce ctx = Some nb"
    and "processPassword P m (cleanUsername (username (credentials ctx))) (password (credentials ctx)) = Inr pp"
    and "parseInt (parsePayload (Binary_value (payload response)) ''i'') = it"
    and "\<not> (truthy it \<and> number_less it 4096)"
    and "parsePayload (Binary_value (payload response)) ''r'' = Some r"
    and "\<not> startsWith r ''nonce''"
    and "parsePayload (Binary_value (payload response)) ''s'' = Some s"
    and "HI_number P c pp (fromBase64 P s) it m = None"
  shows "clientFinal P c m response ctx = Inl (Thrown ''pbkdf2Sync'')"
  using assms by (simp add: clientFinal_def Let_def)

lemma clientFinal_no_r:
  assumes "nonce ctx = Some nb"
    and "processPassword P m (cleanUsername (username (credentials ctx))) (password (credentials ctx)) = Inr pp"
    and "parseInt (parsePayload (Binary_value (payload response)) ''i'') = it"
    and "\<not> (truthy it \<and> number_less it 4096)"
    and "parsePayload (Binary_value (payload response)) ''r'' = None"
  shows "clientFinal P c m response ctx = Inl (Thrown ''TypeError'')"
  using assms by (simp add: clientFinal_def Let_def)

lemma clientFinal_bad_nonce:
  assumes "nonce ctx = Some nb"
    and "processPassword P m (cleanUsername (username (credentials ctx))) (password (credentials ctx)) = Inr pp"
    and "parseInt (parsePayload (Binary_value (payload response)) ''i'') = it"
    and "\<not> (truthy it \<and> number_less it 4096)"
    and "parsePayload (Binary_value (payload response)) ''r'' = Some r"
    and "startsWith r ''nonce''"
  shows "clientFinal P c m response ctx =
           Inl (CallbackError (MongoError (''Server returned an invalid nonce: '' @ r)))"
  using assms by (simp add: clientFinal_def Let_def)

lemma clientFinal_no_s:
  assumes "nonce ctx = Some nb"
    and "processPassword P m (cleanUsername (username (credentials ctx))) (password (credentials ctx)) = Inr pp"
    and "parseInt (parsePayload (Binary_value (payload response)) ''i'') = it"
    and "\<not> (truthy it \<and> number_less it 4096)"
    and "parsePayload (Binary_value (payload response)) ''r'' = Some r"
    and "\<not> startsWith r ''nonce''"
    and "parsePayload (Binary_value (payload response)) ''s'' = None"
  shows "clientFinal P c m response ctx = Inl (Thrown ''TypeError'')"
  using assms by (simp add: clientFinal_def Let_def)

lemma clientFinal_not_weak:
  assumes "nonce ctx = Some nb"
    and "processPassword P m (cleanUsername (username (credentials ctx))) (password (credentials ctx)) = Inr pp"
    and "parseInt (parsePayload (Binary_value (payload response)) ''i'') = it"
    and "\<not> (truthy it \<and> number_less it 4096)"
  shows "clientFinal P c m response ctx \<noteq>
           Inl (CallbackError (MongoError (''Server returned an invalid iteration count '' @ tail)))"
  using assms
  by (auto simp: clientFinal_def Let_def split: option.splits)

lemma callback_not_weak:
  "snd (saslContinue_callback P db sig rep replies) \<noteq>
     CallbackError (MongoError (''Server returned an invalid iteration count '' @ tail))"
  by (cases rep)
     (auto simp: saslContinue_callback_def Let_def split: option.splits list.splits)

lemma callback_cases:
  assumes "\<not> has_err r" and "parsePayload (Binary_value (payload r)) ''v'' = Some v"
  shows "saslContinue_callback P db sig (Result r) rest =
           (if fromBase64 P v \<noteq> sig
            then ([], CallbackError (MongoError ''Server returned an invalid signature''))
            else if doc_done r \<noteq> Some False then ([], CallbackResult r)
            else ([(db @ ''.$cmd'', SaslContinue (conversationId r) [])],
                  case rest of [] \<Rightarrow> Pending | rep2 # later \<Rightarrow> CallbackReply rep2))"
  using assms
  by (simp add: saslContinue_callback_def compareDigest_iff Let_def split: list.splits)

lemma continue_stop:
  "clientFinal P c m response ctx = Inl out \<Longrightarrow>
   continueScramConversation P c m response ctx replies = \<lparr>cache = c, submitted = [], outcome = out\<rparr>"
  by (simp add: continueScramConversation_def)

lemma continue_pending:
  "clientFinal P c m response ctx = Inr cf \<Longrightarrow>
   continueScramConversation P c m response ctx [] =
     \<lparr>cache = final_cache cf,
      submitted = [(source (credentials ctx) @ ''.$cmd'', saslContinueCmd cf)], outcome = Pending\<rparr>"
  by (simp add: continueScramConversation_def)

lemma continue_reply:
  "clientFinal P c m response ctx = Inr cf \<Longrightarrow>
   continueScramConversation P c m response ctx (rep # rest) =
     \<lparr>cache = final_cache cf,
      submitted = (source (credentials ctx) @ ''.$cmd'', saslContinueCmd cf)
         # fst (saslContinue_callback P (source (credentials ctx)) (serverSignature cf) rep rest),
      outcome = snd (saslContinue_callback P (source (credentials ctx)) (serverSignature cf) rep rest)\<rparr>"
  by (simp add: continueScramConversation_def Let_def split: prod.splits)

lemma HI_miss:
  "hiCache c (HI_key data salt it) = None \<Longrightarrow>
   pbkdf2Sync P data salt it (hiLengthMap m) m = Some v \<Longrightarrow> hiCacheCount c < 200 \<Longrightarrow>
   HI P c data salt it m =
     Some (\<lparr>hiCache = (hiCache c)(HI_key data salt it := Some v),
            hiCacheCount = hiCacheCount c + 1\<rparr>, v)"
  by (simp add: HI_def)

lemma HI_throws:
  "hiCache c (HI_key data salt it) = None \<Longrightarrow>
   pbkdf2Sync P data salt it (hiLengthMap m) m = None \<Longrightarrow> HI P c data salt it m = None"
  by (simp add: HI_def)


lemma HI_number_Exact: "HI_number P c data salt (Exact i) m = HI P c data salt (Some i) m"
  by (simp add: HI_number_def)

lemma HI_number_NaN: "HI_number P c data salt NotANumber m = HI P c data salt None m"
  by (simp add: HI_number_def)

subsection \<open>Text and bytes\<close>

lemma utf8_append: "utf8 (a @ b) = utf8 a @ utf8 b"
  by (simp add: utf8_def)

lemma utf8_toString: "utf8 (toString buf) = buf"
proof -
  have "(of_nat (of_char (char_of (unat b) :: char)) :: 8 word) = b" for b :: "8 word"
  proof -
    have "unat b < 256" using unsigned_less [of b, where ?'a = nat] by simp
    then show ?thesis by (simp add: of_char_of)
  qed
  then show ?thesis by (simp add: utf8_def toString_def map_idI)
qed

lemma utf8_latin1_ascii: "b < 0x80 \<Longrightarrow> utf8 (latin1_char b) = [b]"
  using utf8_toString [of "[b]"] by (simp add: latin1_char_def utf8_def toString_def)

lemma utf8_Binary_value_ascii:
  "\<forall>b \<in> set buf. b < 0x80 \<Longrightarrow> utf8 (Binary_value buf) = buf"
proof (induction buf)
  case Nil
  then show ?case by (simp add: Binary_value_def utf8_def)
next
  case (Cons b buf)
  then have "utf8 (Binary_value buf) = buf" and "utf8 (latin1_char b) = [b]"
    by (simp_all add: utf8_latin1_ascii)
  then show ?case
    using utf8_append [of "latin1_char b" "Binary_value buf"] by (simp add: Binary_value_def)
qed

lemma utf8_latin1_high:
  "\<not> b < 0x80 \<Longrightarrow> utf8 (latin1_char b) = [0xC0 OR drop_bit 6 b, 0x80 OR (b AND 0x3F)]"
  using utf8_toString [of "[0xC0 OR drop_bit 6 b, 0x80 OR (b AND 0x3F)]"]
  by (simp add: latin1_char_def utf8_def toString_def)

lemma utf8_Binary_value:
  "utf8 (Binary_value buf) =
     concat (map (\<lambda>b. if b < 0x80 then [b] else [0xC0 OR drop_bit 6 b, 0x80 OR (b AND 0x3F)]) buf)"
proof (induction buf)
  case Nil
  then show ?case by (simp add: Binary_value_def utf8_def)
next
  case (Cons b buf)
  have "utf8 (Binary_value (b # buf)) = utf8 (latin1_char b) @ utf8 (Binary_value buf)"
    using utf8_append [of "latin1_char b" "Binary_value buf"] by (simp add: Binary_value_def)
  then show ?case
    using Cons by (simp add: utf8_latin1_ascii utf8_latin1_high)
qed

lemma length_utf8_Binary_value:
  "length (utf8 (Binary_value buf)) = length buf + length (filter (\<lambda>b. \<not> b < 0x80) buf)"
  unfolding utf8_Binary_value by (induction buf) simp_all

lemma utf8_Binary_value_raw_iff:
  "utf8 (Binary_value buf) = buf \<longleftrightarrow> (\<forall>b \<in> set buf. b < 0x80)"
proof
  assume "utf8 (Binary_value buf) = buf"
  then have "length (filter (\<lambda>b. \<not> b < 0x80) buf) = 0"
    using length_utf8_Binary_value [of buf] by simp
  then show "\<forall>b \<in> set buf. b < 0x80"
    by (simp add: filter_empty_conv)
next
  assume "\<forall>b \<in> set buf. b < 0x80"
  then show "utf8 (Binary_value buf) = buf" by (rule utf8_Binary_value_ascii)
qed

subsection \<open>The key of the HI cache\<close>


lemma split_at_char:
  assumes "c \<notin> set p" and "c \<notin> set p'" and "p @ c # q = p' @ c # q'"
  shows "p = p' \<and> q = q'"
proof -
  have "takeWhile (\<lambda>x. x \<noteq> c) (p @ c # q) = p" "takeWhile (\<lambda>x. x \<noteq> c) (p' @ c # q') = p'"
    using assms(1,2) by (auto simp: takeWhile_tail)
  then have "p = p'" using assms(3) by simp
  then show ?thesis using assms(3) by simp
qed

lemma split_at_last_char:
  assumes "c \<notin> set q" and "c \<notin> set q'" and "p @ c # q = p' @ c # q'"
  shows "p = p' \<and> q = q'"
proof -
  have "rev q @ c # rev p = rev q' @ c # rev p'"
    using arg_cong [OF assms(3), of rev] by simp
  then have "rev q = rev q' \<and> rev p = rev p'"
    using assms(1,2) by (intro split_at_char [of c]) simp_all
  then show ?thesis by simp
qed

lemma HI_key_eq: "HI_key d s i = d @ CHR ''_'' # toBase64 s @ CHR ''_'' # number_toString i"
  by (simp add: HI_key_def)


lemma digit_value_char: "d < 10 \<Longrightarrow> digit_value (digit_char d) = d"
proof -
  assume "d < 10"
  then have "d \<in> {0, 1, 2, 3, 4, 5, 6, 7, 8, 9}" by auto
  then show ?thesis by (auto simp: digit_value_def digit_char_def)
qed

lemma digit_char_in: "d < 10 \<Longrightarrow> digit_char d \<in> set ''0123456789''"
proof -
  assume "d < 10"
  then have "d \<in> {0, 1, 2, 3, 4, 5, 6, 7, 8, 9}" by auto
  then show ?thesis by (auto simp: digit_char_def)
qed

lemma digits_value_snoc: "digits_value acc (cs @ [c]) = digits_value acc cs * 10 + digit_value c"
  by (induction cs arbitrary: acc) simp_all

lemma digits_value_nat_toString: "digits_value 0 (nat_toString n) = n"
proof (induction n rule: nat_toString.induct)
  case (1 n)
  show ?case
  proof (cases "n < 10")
    case True
    then show ?thesis by (simp add: nat_toString.simps [of n] digit_value_char)
  next
    case False
    then show ?thesis
      using "1.IH" by (simp add: nat_toString.simps [of n] digits_value_snoc digit_value_char)
  qed
qed

lemma nat_toString_inj: "nat_toString a = nat_toString b \<Longrightarrow> a = b"
  by (metis digits_value_nat_toString)

lemma nat_toString_digits: "set (nat_toString n) \<subseteq> set ''0123456789''"
proof (induction n rule: nat_toString.induct)
  case (1 n)
  show ?case
  proof (cases "n < 10")
    case True
    then show ?thesis using digit_char_in [of n] by (simp add: nat_toString.simps [of n])
  next
    case False
    then show ?thesis
      using "1.IH" digit_char_in [of "n mod 10"] by (simp add: nat_toString.simps [of n])
  qed
qed

lemma nat_toString_nonempty: "nat_toString n \<noteq> []"
  by (simp add: nat_toString.simps [of n])

lemma nat_toString_hd: "hd (nat_toString n) \<in> set ''0123456789''"
  using nat_toString_digits [of n] nat_toString_nonempty [of n] hd_in_set by blast

lemma nat_toString_not_minus: "nat_toString n \<noteq> CHR ''-'' # cs"
proof
  assume "nat_toString n = CHR ''-'' # cs"
  then have "hd (nat_toString n) = CHR ''-''" by simp
  then show False using nat_toString_hd [of n] by simp
qed

lemma nat_toString_not_NaN: "nat_toString n \<noteq> ''NaN''"
proof
  assume "nat_toString n = ''NaN''"
  then have "hd (nat_toString n) = CHR ''N''" by simp
  then show False using nat_toString_hd [of n] by simp
qed

lemma number_toString_Some_inj:
  assumes "number_toString (Some i) = number_toString (Some j)"
  shows "i = j"
proof (cases "i < 0")
  case True
  show ?thesis
  proof (cases "j < 0")
    case True
    with \<open>i < 0\<close> assms have "nat_toString (nat (- i)) = nat_toString (nat (- j))"
      by (simp add: number_toString_def)
    then have "nat (- i) = nat (- j)" by (rule nat_toString_inj)
    with True \<open>i < 0\<close> show ?thesis by simp
  next
    case False
    with \<open>i < 0\<close> assms have "nat_toString (nat j) = CHR ''-'' # nat_toString (nat (- i))"
      by (simp add: number_toString_def)
    then show ?thesis using nat_toString_not_minus by blast
  qed
next
  case False
  show ?thesis
  proof (cases "j < 0")
    case True
    with \<open>\<not> i < 0\<close> assms have "nat_toString (nat i) = CHR ''-'' # nat_toString (nat (- j))"
      by (simp add: number_toString_def)
    then show ?thesis using nat_toString_not_minus by blast
  next
    case False
    with \<open>\<not> i < 0\<close> assms have "nat_toString (nat i) = nat_toString (nat j)"
      by (simp add: number_toString_def)
    then have "nat i = nat j" by (rule nat_toString_inj)
    with False \<open>\<not> i < 0\<close> show ?thesis by simp
  qed
qed

lemma number_toString_Some_not_NaN: "number_toString (Some i) \<noteq> ''NaN''"
  using nat_toString_not_NaN [of "nat i"] by (simp add: number_toString_def)

lemma number_toString_inj: "number_toString a = number_toString b \<Longrightarrow> a = b"
proof (cases a; cases b)
  fix i j
  assume "number_toString a = number_toString b" "a = Some i" "b = Some j"
  then show "a = b" using number_toString_Some_inj by simp
next
  fix j
  assume "number_toString a = number_toString b" "a = None" "b = Some j"
  then have "number_toString (Some j) = ''NaN''" by (simp add: number_toString_def)
  then show "a = b" using number_toString_Some_not_NaN by blast
next
  fix i
  assume "number_toString a = number_toString b" "a = Some i" "b = None"
  then have "number_toString (Some i) = ''NaN''" by (simp add: number_toString_def)
  then show "a = b" using number_toString_Some_not_NaN by blast
qed simp

lemma number_toString_no_underscore: "CHR ''_'' \<notin> set (number_toString n)"
proof (cases n)
  case None
  then show ?thesis by (simp add: number_toString_def)
next
  case (Some i)
  have "CHR ''_'' \<notin> set (nat_toString k)" for k
    using nat_toString_digits [of k] by auto
  then show ?thesis using Some by (simp add: number_toString_def)
qed


lemma b64_distinct: "distinct b64chars"
  by (simp add: b64chars_def)

lemma index_of_nth: "distinct xs \<Longrightarrow> n < length xs \<Longrightarrow> index_of xs (xs ! n) = n"
proof (induction xs arbitrary: n)
  case Nil
  then show ?case by simp
next
  case (Cons x xs)
  then show ?case by (cases n) auto
qed

lemma b64_length: "length b64chars = 64"
  by (simp add: b64chars_def)

lemma index_b64: "n < 64 \<Longrightarrow> index_of b64chars (b64 n) = n"
  by (simp add: b64_def index_of_nth b64_distinct b64_length)

lemma b64_in: "n < 64 \<Longrightarrow> b64 n \<in> set b64chars"
  by (simp add: b64_def b64_length)

lemma pad_not_b64: "CHR ''='' \<notin> set b64chars"
  by (simp add: b64chars_def)

lemma underscore_not_b64: "CHR ''_'' \<notin> set b64chars"
  by (simp add: b64chars_def)

lemma unat_byte: "unat (a :: 8 word) < 256"
  using unsigned_less [of a, where ?'a = nat] by simp

lemma sextet_bounds:
  fixes x y z :: nat
  assumes "x < 256" "y < 256" "z < 256"
  shows "x div 4 < 64" "x mod 4 * 16 < 64" "x mod 4 * 16 + y div 16 < 64"
    "y mod 16 * 4 < 64" "y mod 16 * 4 + z div 64 < 64" "z mod 64 < 64"
  using assms by simp_all

lemma div_mod_16: "(k::nat) < 16 \<Longrightarrow> (m * 16 + k) div 16 = m \<and> (m * 16 + k) mod 16 = k"
  by simp

lemma div_mod_4: "(k::nat) < 4 \<Longrightarrow> (m * 4 + k) div 4 = m \<and> (m * 4 + k) mod 4 = k"
  by simp

lemma sextet_bytes:
  fixes x y z :: nat
  assumes "y < 256" "z < 256"
  shows "x div 4 * 4 + (x mod 4 * 16 + y div 16) div 16 = x"
    "(x mod 4 * 16 + y div 16) mod 16 * 16 + (y mod 16 * 4 + z div 64) div 4 = y"
    "(y mod 16 * 4 + z div 64) mod 4 * 64 + z mod 64 = z"
proof -
  have y16: "y div 16 < 16" using assms(1) by simp
  have z64: "z div 64 < 4" using assms(2) by simp
  note a = div_mod_16 [OF y16, of "x mod 4"]
  note c = div_mod_4 [OF z64, of "y mod 16"]
  show "x div 4 * 4 + (x mod 4 * 16 + y div 16) div 16 = x"
    by (simp only: a div_mult_mod_eq)
  show "(x mod 4 * 16 + y div 16) mod 16 * 16 + (y mod 16 * 4 + z div 64) div 4 = y"
    by (simp only: a c div_mult_mod_eq)
  show "(y mod 16 * 4 + z div 64) mod 4 * 64 + z mod 64 = z"
    by (simp only: c div_mult_mod_eq)
qed

lemma sextet_bytes_short:
  fixes x y :: nat
  assumes "y < 256"
  shows "x div 4 * 4 + (x mod 4 * 16) div 16 = x"
    "(x mod 4 * 16 + y div 16) mod 16 * 16 + (y mod 16 * 4) div 4 = y"
proof -
  have y16: "y div 16 < 16" using assms(1) by simp
  note a = div_mod_16 [OF y16, of "x mod 4"]
  show "x div 4 * 4 + (x mod 4 * 16) div 16 = x"
    by simp
  show "(x mod 4 * 16 + y div 16) mod 16 * 16 + (y mod 16 * 4) div 4 = y"
    by (simp only: a) simp
qed


lemma decode_toBase64: "decodeBase64 (toBase64 xs) = xs"
proof (induction xs rule: toBase64.induct)
  case 1
  show ?case by (simp add: decodeBase64_def)
next
  case (2 a)
  note bs = sextet_bounds [OF unat_byte [of a] unat_byte [of a] unat_byte [of a]]
  show ?case
    using sextet_bytes_short(1) [of "unat a"]
    by (simp add: decodeBase64_def b64_in index_b64 pad_not_b64 bs)
next
  case (3 a b)
  note bs = sextet_bounds [OF unat_byte [of a] unat_byte [of b] unat_byte [of b]]
  show ?case
    using sextet_bytes(1) [OF unat_byte [of b] unat_byte [of b], of "unat a"]
      sextet_bytes_short(2) [OF unat_byte [of b], of "unat a"]
    by (simp add: decodeBase64_def b64_in index_b64 pad_not_b64 bs)
next
  case (4 a b c rest)
  note bs = sextet_bounds [OF unat_byte [of a] unat_byte [of b] unat_byte [of c]]
  have "decodeBase64 (toBase64 (a # b # c # rest)) =
          [of_nat (unat a div 4 * 4 + (unat a mod 4 * 16 + unat b div 16) div 16),
           of_nat ((unat a mod 4 * 16 + unat b div 16) mod 16 * 16 + (unat b mod 16 * 4 + unat c div 64) div 4),
           of_nat ((unat b mod 16 * 4 + unat c div 64) mod 4 * 64 + unat c mod 64)]
          @ decodeBase64 (toBase64 rest)"
    by (simp add: decodeBase64_def b64_in index_b64 bs)
  then show ?case
    using "4.IH" by (simp only: sextet_bytes [OF unat_byte [of b] unat_byte [of c]]) simp
qed

lemma toBase64_inj: "toBase64 xs = toBase64 ys \<Longrightarrow> xs = ys"
  by (metis decode_toBase64)

lemma toBase64_chars: "set (toBase64 xs) \<subseteq> insert CHR ''='' (set b64chars)"
proof (induction xs rule: toBase64.induct)
  case 1
  show ?case by simp
next
  case (2 a)
  note bs = sextet_bounds [OF unat_byte [of a] unat_byte [of a] unat_byte [of a]]
  show ?case by (simp add: b64_in bs)
next
  case (3 a b)
  note bs = sextet_bounds [OF unat_byte [of a] unat_byte [of b] unat_byte [of b]]
  show ?case by (simp add: b64_in bs)
next
  case (4 a b c rest)
  note bs = sextet_bounds [OF unat_byte [of a] unat_byte [of b] unat_byte [of c]]
  show ?case using "4.IH" by (simp add: b64_in bs)
qed

lemma toBase64_no_underscore: "CHR ''_'' \<notin> set (toBase64 xs)"
  using toBase64_chars [of xs] underscore_not_b64 by auto

lemma HI_key_inj:
  assumes "HI_key d s i = HI_key d' s' i'"
  shows "d = d' \<and> s = s' \<and> i = i'"
proof -
  have "(d @ CHR ''_'' # toBase64 s) @ CHR ''_'' # number_toString i =
        (d' @ CHR ''_'' # toBase64 s') @ CHR ''_'' # number_toString i'"
    using assms by (simp add: HI_key_eq)
  then have 1: "d @ CHR ''_'' # toBase64 s = d' @ CHR ''_'' # toBase64 s'"
    and 2: "number_toString i = number_toString i'"
    using split_at_last_char [OF number_toString_no_underscore number_toString_no_underscore]
    by blast+
  have "d = d' \<and> toBase64 s = toBase64 s'"
    using split_at_last_char [OF toBase64_no_underscore toBase64_no_underscore 1] .
  then show ?thesis
    using 2 toBase64_inj number_toString_inj by blast
qed

lemma HI_hit:
  "hiCache c (HI_key data salt it) = Some hit \<Longrightarrow> HI P c data salt it m = Some (c, hit)"
  by (simp add: HI_def)

subsection \<open>HI\<close>


lemma HI_keeps_method:
  assumes inv: "\<forall>d s i w. hiCache c (HI_key d s i) = Some w \<longrightarrow>
                  pbkdf2Sync P d s i (hiLengthMap m) m = Some w"
    and v: "pbkdf2Sync P data salt it (hiLengthMap m) m = Some v"
  shows "\<exists>c'. HI P c data salt it m = Some (c', v) \<and>
           (\<forall>d s i w. hiCache c' (HI_key d s i) = Some w \<longrightarrow>
              pbkdf2Sync P d s i (hiLengthMap m) m = Some w)"
proof (cases "hiCache c (HI_key data salt it)")
  case (Some hit)
  then have "hit = v" using inv v by fastforce
  then show ?thesis using Some inv by (auto simp: HI_hit)
next
  case None
  define c0 where "c0 = (if hiCacheCount c \<ge> 200 then hiCachePurge else c)"
  define c' where "c' = \<lparr>hiCache = (hiCache c0)(HI_key data salt it := Some v),
                          hiCacheCount = hiCacheCount c0 + 1\<rparr>"
  have run: "HI P c data salt it m = Some (c', v)"
    using None v by (simp add: HI_def c'_def c0_def)
  have inv0: "pbkdf2Sync P d s i (hiLengthMap m) m = Some w"
    if "hiCache c0 (HI_key d s i) = Some w" for d s i w
    using that inv by (auto simp: c0_def hiCachePurge_def split: if_splits)
  have "pbkdf2Sync P d s i (hiLengthMap m) m = Some w"
    if "hiCache c' (HI_key d s i) = Some w" for d s i w
  proof (cases "HI_key d s i = HI_key data salt it")
    case True
    then have "d = data \<and> s = salt \<and> i = it" by (rule HI_key_inj)
    moreover have "w = v" using that True by (simp add: c'_def)
    ultimately show ?thesis using v by simp
  next
    case False
    then have "hiCache c0 (HI_key d s i) = Some w" using that by (simp add: c'_def)
    then show ?thesis by (rule inv0)
  qed
  then show ?thesis using run by blast
qed

lemma HI_miss_any:
  assumes "hiCache c (HI_key data salt it) = None"
    and "pbkdf2Sync P data salt it (hiLengthMap m) m = Some v"
  shows "\<exists>c'. HI P c data salt it m = Some (c', v) \<and> hiCache c' (HI_key data salt it) = Some v"
  using assms by (simp add: HI_def)

text \<open>Claim C1, amended. On a miss (no entry under the key made of the prepared password,
  the base64 salt and the iteration count) \<open>HI\<close> returns the PBKDF2 value of its method and
  stores it under that key; on a hit it returns the stored entry, whatever the method. The
  key determines password, salt and iteration count, so as long as every entry of the cache
  is the PBKDF2 value of one method, each call with that method returns the PBKDF2 value of
  its arguments and leaves the cache in that state.\<close>

theorem HI_memoised:
  "(hiCache c (HI_key data salt it) = None \<and>
      pbkdf2Sync P data salt it (hiLengthMap m) m = Some v \<longrightarrow>
      (\<exists>c'. HI P c data salt it m = Some (c', v) \<and> hiCache c' (HI_key data salt it) = Some v)) \<and>
   (hiCache c (HI_key data salt it) = Some hit \<longrightarrow> HI P c data salt it m = Some (c, hit)) \<and>
   ((\<forall>d s i w. hiCache c (HI_key d s i) = Some w \<longrightarrow>
        pbkdf2Sync P d s i (hiLengthMap m) m = Some w) \<and>
      pbkdf2Sync P data salt it (hiLengthMap m) m = Some v \<longrightarrow>
      (\<exists>c'. HI P c data salt it m = Some (c', v) \<and>
         (\<forall>d s i w. hiCache c' (HI_key d s i) = Some w \<longrightarrow>
            pbkdf2Sync P d s i (hiLengthMap m) m = Some w)))"
  using HI_miss_any [of c data salt it P m v] HI_hit [of c data salt it hit P m]
    HI_keeps_method [of c P m data salt it v]
  by blast

lemma hex_pbkdf2:
  "pbkdf2Sync test_platform hex_password [65, 66, 67] (Some 4096) (hiLengthMap sha1) sha1 = Some (replicate 20 249)"
  "pbkdf2Sync test_platform hex_password [65, 66, 67] (Some 4096) (hiLengthMap sha256) sha256 = Some (replicate 32 250)"
  by code_simp+

lemma hex_first_call:
  "HI test_platform empty_cache hex_password [65, 66, 67] (Some 4096) sha1 =
     Some (cache_after_sha1, replicate 20 249)"
  using HI_miss [of empty_cache hex_password "[65, 66, 67]" "Some 4096" test_platform sha1, OF _ hex_pbkdf2(1)]
  by (simp add: empty_cache_def cache_after_sha1_def)

lemma hex_cached:
  "hiCache cache_after_sha1 (HI_key hex_password [65, 66, 67] (Some 4096)) = Some (replicate 20 249)"
  by (simp add: cache_after_sha1_def)

text \<open>Claim C1, refuted as stated: after a call with SHA-1, a call with SHA-256 for the same
  prepared password, salt and iteration count returns the 20 bytes of the SHA-1 call, not
  the 32 bytes of PBKDF2 with SHA-256. The key of the cache does not hold the method.\<close>

theorem HI_ignores_method_counterexample:
  "HI test_platform empty_cache hex_password [65, 66, 67] (Some 4096) sha1 =
     Some (cache_after_sha1, replicate 20 249) \<and>
   HI test_platform cache_after_sha1 hex_password [65, 66, 67] (Some 4096) sha256 =
     Some (cache_after_sha1, replicate 20 249) \<and>
   pbkdf2Sync test_platform hex_password [65, 66, 67] (Some 4096) (hiLengthMap sha256) sha256 =
     Some (replicate 32 250) \<and>
   replicate 20 249 \<noteq> (replicate 32 250 :: bytes)"
  using hex_first_call HI_hit [OF hex_cached, of test_platform sha256] hex_pbkdf2(2)
  by simp

text \<open>Claim C1, amended, on the empty cache (a miss) and on the cache the miss leaves (a
  hit), both with SHA-1.\<close>

theorem HI_memoised_witness:
  "hiCache empty_cache (HI_key hex_password [65, 66, 67] (Some 4096)) = None \<and>
   pbkdf2Sync test_platform hex_password [65, 66, 67] (Some 4096) (hiLengthMap sha1) sha1 =
     Some (replicate 20 249) \<and>
   (\<exists>c'. HI test_platform empty_cache hex_password [65, 66, 67] (Some 4096) sha1 =
           Some (c', replicate 20 249) \<and>
         hiCache c' (HI_key hex_password [65, 66, 67] (Some 4096)) = Some (replicate 20 249) \<and>
         (\<forall>d s i w. hiCache c' (HI_key d s i) = Some w \<longrightarrow>
            pbkdf2Sync test_platform d s i (hiLengthMap sha1) sha1 = Some w)) \<and>
   hiCache cache_after_sha1 (HI_key hex_password [65, 66, 67] (Some 4096)) = Some (replicate 20 249) \<and>
   HI test_platform cache_after_sha1 hex_password [65, 66, 67] (Some 4096) sha1 =
     Some (cache_after_sha1, replicate 20 249)"
proof -
  have none: "hiCache empty_cache k = None" for k
    by (simp add: empty_cache_def)
  note first = HI_memoised [of empty_cache hex_password "[65, 66, 67]" "Some 4096" test_platform sha1
      "replicate 20 249" "[]"]
  note second = HI_memoised [of cache_after_sha1 hex_password "[65, 66, 67]" "Some 4096" test_platform sha1
      "replicate 20 249" "replicate 20 249"]
  obtain c' where c': "HI test_platform empty_cache hex_password [65, 66, 67] (Some 4096) sha1 =
        Some (c', replicate 20 249)"
      "\<forall>d s i w. hiCache c' (HI_key d s i) = Some w \<longrightarrow>
         pbkdf2Sync test_platform d s i (hiLengthMap sha1) sha1 = Some w"
    using first none hex_pbkdf2(1) by auto
  have "c' = cache_after_sha1" using c'(1) hex_first_call by simp
  then show ?thesis
    using c' second none hex_pbkdf2(1) hex_cached by auto
qed

subsection \<open>The example run\<close>

text \<open>The example user answers the server-first message \<^verbatim>\<open>r=AQIDxyz,s=QUJD,i=4096\<close>;
  each step of the run is evaluated on its own.\<close>

lemma example_nonce: "nonce example_context = Some [1, 2, 3]"
  by (simp add: example_context_def)

lemma example_source: "source (credentials example_context) = ''admin''"
  by (simp add: example_context_def)

lemma example_password:
  "processPassword test_platform sha1 (cleanUsername (username (credentials example_context)))
     (password (credentials example_context)) = Inr (replicate 32 CHR ''6'')"
  by code_simp

lemma example_i:
  "parseInt (parsePayload (Binary_value (payload (server_first ''r=AQIDxyz,s=QUJD,i=4096''))) ''i'') = Exact 4096"
  "parseInt (parsePayload (Binary_value (payload (server_first ''r=XXXXxyz,s=QUJD,i=4096''))) ''i'') = Exact 4096"
  "parseInt (parsePayload (Binary_value (payload (server_first ''r=AQIDxyz,s=QUJD,i=4095''))) ''i'') = Exact 4095"
  "parseInt (parsePayload (Binary_value (payload (server_first ''r=AQIDxyz,s=QUJD,i=0''))) ''i'') = Exact 0"
  "parseInt (parsePayload (Binary_value (payload (server_first ''r=AQIDxyz,s=QUJD,i=abc''))) ''i'') = NotANumber"
  by code_simp+

lemma example_r:
  "parsePayload (Binary_value (payload (server_first ''r=AQIDxyz,s=QUJD,i=4096''))) ''r'' = Some ''AQIDxyz''"
  "parsePayload (Binary_value (payload (server_first ''r=XXXXxyz,s=QUJD,i=4096''))) ''r'' = Some ''XXXXxyz''"
  "parsePayload (Binary_value (payload (server_first ''r=AQIDxyz,s=QUJD,i=0''))) ''r'' = Some ''AQIDxyz''"
  "parsePayload (Binary_value (payload (server_first ''r=AQIDxyz,s=QUJD,i=abc''))) ''r'' = Some ''AQIDxyz''"
  by code_simp+

lemma example_s:
  "parsePayload (Binary_value (payload (server_first ''r=AQIDxyz,s=QUJD,i=4096''))) ''s'' = Some ''QUJD''"
  "parsePayload (Binary_value (payload (server_first ''r=XXXXxyz,s=QUJD,i=4096''))) ''s'' = Some ''QUJD''"
  "parsePayload (Binary_value (payload (server_first ''r=AQIDxyz,s=QUJD,i=0''))) ''s'' = Some ''QUJD''"
  "parsePayload (Binary_value (payload (server_first ''r=AQIDxyz,s=QUJD,i=abc''))) ''s'' = Some ''QUJD''"
  by code_simp+

lemma example_not_nonce:
  "\<not> startsWith ''AQIDxyz'' ''nonce''" "\<not> startsWith ''XXXXxyz'' ''nonce''"
  by (simp_all add: startsWith_def)

lemma example_not_weak:
  "\<not> (truthy (Exact 4096) \<and> number_less (Exact 4096) 4096)"
  "\<not> (truthy (Exact 0) \<and> number_less (Exact 0) 4096)"
  "\<not> (truthy NotANumber \<and> number_less NotANumber 4096)"
  "truthy (Exact 4095) \<and> number_less (Exact 4095) 4096"
  by (simp_all add: truthy_def number_less_def)

lemma example_salt: "fromBase64 test_platform ''QUJD'' = [65, 66, 67]"
  by code_simp

lemma example_pbkdf2:
  "pbkdf2Sync test_platform (replicate 32 CHR ''6'') [65, 66, 67] (Some 4096) 20 sha1 = Some (replicate 20 135)"
  by code_simp

lemma example_HI:
  "HI_number test_platform empty_cache (replicate 32 CHR ''6'') (fromBase64 test_platform ''QUJD'') (Exact 4096) sha1 =
     Some (\<lparr>hiCache = (hiCache empty_cache)
               (HI_key (replicate 32 CHR ''6'') [65, 66, 67] (Some 4096) := Some (replicate 20 135)),
            hiCacheCount = hiCacheCount empty_cache + 1\<rparr>, replicate 20 135)"
  unfolding example_salt HI_number_Exact
  by (rule HI_miss) (simp_all add: example_pbkdf2 empty_cache_def)

lemma example_HI_throws:
  "HI_number test_platform empty_cache (replicate 32 CHR ''6'') (fromBase64 test_platform ''QUJD'') (Exact 0) sha1 = None"
  "HI_number test_platform empty_cache (replicate 32 CHR ''6'') (fromBase64 test_platform ''QUJD'') NotANumber sha1 = None"
  unfolding HI_number_Exact HI_number_NaN
  by (rule HI_throws; simp add: empty_cache_def test_platform_def)+

lemma example_keys:
  "replicate 20 133 = HMAC test_platform sha1 (replicate 20 135) (utf8 ''Client Key'')"
  "replicate 20 205 = HMAC test_platform sha1 (replicate 20 135) (utf8 ''Server Key'')"
  "replicate 20 245 = H test_platform sha1 (replicate 20 133)"
  by code_simp+

lemma example_authMessage:
  "''n=user,r=AQID,r=AQIDxyz,s=QUJD,i=4096,c=biws,r=AQIDxyz'' =
     toString (clientFirstMessageBare (cleanUsername (username (credentials example_context))) [1, 2, 3])
       @ '','' @ Binary_value (payload (server_first ''r=AQIDxyz,s=QUJD,i=4096'')) @ '','' @ ''c=biws,r='' @ ''AQIDxyz''"
  "''n=user,r=AQID,r=XXXXxyz,s=QUJD,i=4096,c=biws,r=XXXXxyz'' =
     toString (clientFirstMessageBare (cleanUsername (username (credentials example_context))) [1, 2, 3])
       @ '','' @ Binary_value (payload (server_first ''r=XXXXxyz,s=QUJD,i=4096'')) @ '','' @ ''c=biws,r='' @ ''XXXXxyz''"
  by code_simp+

lemma example_signatures:
  "xor (replicate 20 133)
     (HMAC test_platform sha1 (replicate 20 245) (utf8 ''n=user,r=AQID,r=AQIDxyz,s=QUJD,i=4096,c=biws,r=AQIDxyz''))
     = ''1NTU1NTU1NTU1NTU1NTU1NTU1NQ=''"
  "HMAC test_platform sha1 (replicate 20 205) (utf8 ''n=user,r=AQID,r=AQIDxyz,s=QUJD,i=4096,c=biws,r=AQIDxyz'')
     = replicate 20 49"
  "xor (replicate 20 133)
     (HMAC test_platform sha1 (replicate 20 245) (utf8 ''n=user,r=AQID,r=XXXXxyz,s=QUJD,i=4096,c=biws,r=XXXXxyz''))
     = ''UlJSUlJSUlJSUlJSUlJSUlJSUlI=''"
  "HMAC test_platform sha1 (replicate 20 205) (utf8 ''n=user,r=AQID,r=XXXXxyz,s=QUJD,i=4096,c=biws,r=XXXXxyz'')
     = replicate 20 183"
  by code_simp+

lemma example_clientFinal:
  "clientFinal test_platform empty_cache sha1 (server_first ''r=AQIDxyz,s=QUJD,i=4096'') example_context =
     Inr \<lparr>final_cache =
            \<lparr>hiCache = (hiCache empty_cache)
               (HI_key (replicate 32 CHR ''6'') [65, 66, 67] (Some 4096) := Some (replicate 20 135)),
             hiCacheCount = hiCacheCount empty_cache + 1\<rparr>,
          saslContinueCmd = SaslContinue 1 (utf8 ''c=biws,r=AQIDxyz,p=1NTU1NTU1NTU1NTU1NTU1NTU1NQ=''),
          serverSignature = replicate 20 49\<rparr>"
  using clientFinal_success [OF example_nonce example_password example_i(1) example_not_weak(1)
      example_r(1) example_not_nonce(1) example_s(1) example_HI example_authMessage(1) example_keys]
  by (simp add: example_signatures server_first_def)

lemma foreign_clientFinal:
  "clientFinal test_platform empty_cache sha1 (server_first ''r=XXXXxyz,s=QUJD,i=4096'') example_context =
     Inr \<lparr>final_cache =
            \<lparr>hiCache = (hiCache empty_cache)
               (HI_key (replicate 32 CHR ''6'') [65, 66, 67] (Some 4096) := Some (replicate 20 135)),
             hiCacheCount = hiCacheCount empty_cache + 1\<rparr>,
          saslContinueCmd = SaslContinue 1 (utf8 ''c=biws,r=XXXXxyz,p=UlJSUlJSUlJSUlJSUlJSUlJSUlI=''),
          serverSignature = replicate 20 183\<rparr>"
  using clientFinal_success [OF example_nonce example_password example_i(2) example_not_weak(1)
      example_r(2) example_not_nonce(2) example_s(2) example_HI example_authMessage(2) example_keys]
  by (simp add: example_signatures server_first_def)

lemma example_foreign: "\<not> startsWith ''XXXXxyz'' (toBase64 [1, 2, 3])"
  by code_simp

lemma example_4095: "number_text test_platform (Exact 4095) = ''4095''"
  by code_simp

lemma example_v:
  "parsePayload (Binary_value (payload (server_final ''v=MTExMTExMTExMTExMTExMTExMTE='' d))) ''v''
     = Some ''MTExMTExMTExMTExMTExMTExMTE''"
  "parsePayload (Binary_value (payload (server_final ''v=MTExMTExMTExMTExMTExMTExMTA='' d))) ''v''
     = Some ''MTExMTExMTExMTExMTExMTExMTA''"
  by (simp_all add: server_final_def) code_simp+

lemma example_decode:
  "fromBase64 test_platform ''MTExMTExMTExMTExMTExMTExMTE'' = replicate 20 49"
  "fromBase64 test_platform ''MTExMTExMTExMTExMTExMTExMTA'' = replicate 19 49 @ [48]"
  by code_simp+

lemma example_no_err: "\<not> has_err (server_final t d)"
  by (simp add: server_final_def)

lemma example_tampered: "replicate 19 49 @ [48] \<noteq> (replicate 20 49 :: bytes)"
  by code_simp

lemma example_ascii: "list_all (\<lambda>b. b < 0x80) (payload (server_first ''r=AQIDxyz,s=QUJD,i=4096''))"
  by code_simp

lemma example_bytes:
  "utf8 ''n=user,r=AQID,r=AQIDxyz,s=QUJD,i=4096,c=biws,r=AQIDxyz'' =
     utf8 ''n=user,r=AQID'' @ utf8 '','' @ payload (server_first ''r=AQIDxyz,s=QUJD,i=4096'')
       @ utf8 '','' @ utf8 ''c=biws,r=AQIDxyz''"
  by (simp add: server_first_def utf8_def)

lemma example_conversationId: "conversationId (server_first t) = 1"
  by (simp add: server_first_def)

lemma example_bare:
  "clientFirstMessageBare (cleanUsername (username (credentials example_context))) [1, 2, 3] = utf8 ''n=user,r=AQID''"
  by code_simp

text \<open>The run on the server-first message that holds the byte E9.\<close>

lemma latin1_parsed:
  "parseInt (parsePayload (Binary_value (payload latin1_server_first)) ''i'') = Exact 4096"
  "parsePayload (Binary_value (payload latin1_server_first)) ''r'' = Some ''AQIDxyz''"
  "parsePayload (Binary_value (payload latin1_server_first)) ''s'' = Some ''QUJD''"
  by code_simp+

lemma latin1_authMessage:
  "''n=user,r=AQID,r=AQIDxyz,s=QUJD,i=4096,x='' @ [CHR 0xC3, CHR 0xA9] @ '',c=biws,r=AQIDxyz'' =
     toString (clientFirstMessageBare (cleanUsername (username (credentials example_context))) [1, 2, 3])
       @ '','' @ Binary_value (payload latin1_server_first) @ '','' @ ''c=biws,r='' @ ''AQIDxyz''"
  by code_simp

lemma latin1_bytes:
  "utf8 (''n=user,r=AQID,r=AQIDxyz,s=QUJD,i=4096,x='' @ [CHR 0xC3, CHR 0xA9] @ '',c=biws,r=AQIDxyz'') =
     utf8 ''n=user,r=AQID,r=AQIDxyz,s=QUJD,i=4096,x='' @ [0xC3, 0xA9] @ utf8 '',c=biws,r=AQIDxyz''"
  "clientFirstMessageBare ''user'' [1, 2, 3] @ utf8 '','' @ payload latin1_server_first
       @ utf8 '','' @ utf8 ''c=biws,r=AQIDxyz'' =
     utf8 ''n=user,r=AQID,r=AQIDxyz,s=QUJD,i=4096,x='' @ [0xE9] @ utf8 '',c=biws,r=AQIDxyz''"
  "utf8 ''n=user,r=AQID,r=AQIDxyz,s=QUJD,i=4096,x='' @ [0xC3, 0xA9] @ utf8 '',c=biws,r=AQIDxyz'' \<noteq>
     utf8 ''n=user,r=AQID,r=AQIDxyz,s=QUJD,i=4096,x='' @ [0xE9] @ utf8 '',c=biws,r=AQIDxyz''"
  by code_simp+

lemma latin1_conversationId: "conversationId latin1_server_first = 1"
  by (simp add: latin1_server_first_def)

subsection \<open>The iteration count\<close>

text \<open>Claim C6, refuted as stated: with \<^verbatim>\<open>i=0\<close> and with a non-numeric \<^verbatim>\<open>i\<close> the check
  of the iteration count does not fail. The run goes on to \<open>HI\<close>, and there the exception of
  \<open>pbkdf2Sync\<close> escapes; the callback never gets the error of the iteration count.\<close>

theorem zero_iterations_counterexample:
  "outcome (continueScramConversation test_platform empty_cache sha1
       (server_first ''r=AQIDxyz,s=QUJD,i=0'') example_context []) = Thrown ''pbkdf2Sync'' \<and>
   outcome (continueScramConversation test_platform empty_cache sha1
       (server_first ''r=AQIDxyz,s=QUJD,i=abc'') example_context []) = Thrown ''pbkdf2Sync''"
  using
    clientFinal_throws [OF example_nonce example_password example_i(4) example_not_weak(2)
      example_r(3) example_not_nonce(1) example_s(3) example_HI_throws(1)]
    clientFinal_throws [OF example_nonce example_password example_i(5) example_not_weak(3)
      example_r(4) example_not_nonce(1) example_s(4) example_HI_throws(2)]
  by (simp add: continue_stop)


text \<open>Claim C6, amended. Once the nonce is there and the password is prepared: when \<^verbatim>\<open>i\<close>
  parses to a number other than 0 that is below 4096, the run ends with the error of the
  iteration count, nothing is submitted and the cache is as it was. In every other case
  (4096 and more, 0, or not a number) the run never ends with that error and goes on: a
  missing \<^verbatim>\<open>r\<close> or \<^verbatim>\<open>s\<close> throws, an \<^verbatim>\<open>r\<close> that starts with \<^verbatim>\<open>nonce\<close> is rejected, and
  otherwise \<open>HI\<close> is called; when it throws the exception escapes, and when it returns the
  \<^verbatim>\<open>saslContinue\<close> command is submitted.\<close>

theorem iterations_amended:
  assumes "nonce ctx = Some nb"
    and "processPassword P m (cleanUsername (username (credentials ctx))) (password (credentials ctx)) = Inr pp"
    and "d = parsePayload (Binary_value (payload response))"
    and "it = parseInt (d ''i'')"
    and "weak = (truthy it \<and> number_less it 4096)"
    and "run = continueScramConversation P c m response ctx replies"
    and "ns = source (credentials ctx) @ ''.$cmd''"
    and "authMessage = toString (clientFirstMessageBare (cleanUsername (username (credentials ctx))) nb)
            @ '','' @ Binary_value (payload response) @ '','' @ ''c=biws,r='' @ r"
    and "clientKey = HMAC P m sp (utf8 ''Client Key'')"
    and "storedKey = H P m clientKey"
  shows "(weak \<longleftrightarrow> (\<exists>i. it = Exact i \<and> i \<noteq> 0 \<and> i < 4096) \<or> (\<exists>n. it = Rounded True n)) \<and>
         (weak \<longrightarrow>
            run = \<lparr>cache = c, submitted = [],
                   outcome = CallbackError (MongoError
                     (''Server returned an invalid iteration count '' @ number_text P it))\<rparr>) \<and>
         (\<not> weak \<longrightarrow>
            (\<forall>tail. outcome run \<noteq>
               CallbackError (MongoError (''Server returned an invalid iteration count '' @ tail)))) \<and>
         (\<not> weak \<and> d ''r'' = None \<longrightarrow>
            run = \<lparr>cache = c, submitted = [], outcome = Thrown ''TypeError''\<rparr>) \<and>
         (\<not> weak \<and> d ''r'' = Some r \<and> startsWith r ''nonce'' \<longrightarrow>
            run = \<lparr>cache = c, submitted = [],
                   outcome = CallbackError (MongoError (''Server returned an invalid nonce: '' @ r))\<rparr>) \<and>
         (\<not> weak \<and> d ''r'' = Some r \<and> \<not> startsWith r ''nonce'' \<and> d ''s'' = None \<longrightarrow>
            run = \<lparr>cache = c, submitted = [], outcome = Thrown ''TypeError''\<rparr>) \<and>
         (\<not> weak \<and> d ''r'' = Some r \<and> \<not> startsWith r ''nonce'' \<and> d ''s'' = Some s \<and>
            HI_number P c pp (fromBase64 P s) it m = None \<longrightarrow>
            run = \<lparr>cache = c, submitted = [], outcome = Thrown ''pbkdf2Sync''\<rparr>) \<and>
         (\<not> weak \<and> d ''r'' = Some r \<and> \<not> startsWith r ''nonce'' \<and> d ''s'' = Some s \<and>
            HI_number P c pp (fromBase64 P s) it m = Some (c', sp) \<longrightarrow>
            cache run = c' \<and>
            (\<exists>later. submitted run =
               (ns, SaslContinue (conversationId response)
                  (utf8 (''c=biws,r='' @ r @ '',p='' @ xor clientKey (HMAC P m storedKey (utf8 authMessage)))))
               # later))"
proof -
  note pre = assms(1,2) assms(4) [unfolded assms(3), symmetric]
  have w: "weak \<longleftrightarrow> (\<exists>i. it = Exact i \<and> i \<noteq> 0 \<and> i < 4096) \<or> (\<exists>n. it = Rounded True n)"
    unfolding assms(5) by (cases it) (auto simp: truthy_def number_less_def)
  have rejected: "run = \<lparr>cache = c, submitted = [],
                   outcome = CallbackError (MongoError
                     (''Server returned an invalid iteration count '' @ number_text P it))\<rparr>"
    if weak
    using clientFinal_weak [OF pre] that unfolding assms(5,6) by (simp add: continue_stop)
  have not_error: "outcome run \<noteq>
      CallbackError (MongoError (''Server returned an invalid iteration count '' @ tail))"
    if "\<not> weak" for tail
  proof -
    have ok: "\<not> (truthy it \<and> number_less it 4096)" using that unfolding assms(5) .
    show ?thesis
    proof (cases "clientFinal P c m response ctx")
      case (Inl out)
      then show ?thesis
        using clientFinal_not_weak [OF pre ok, of c tail] unfolding assms(6) by (simp add: continue_stop)
    next
      case (Inr cf)
      show ?thesis
      proof (cases replies)
        case Nil
        then show ?thesis using Inr unfolding assms(6) by (simp add: continue_pending)
      next
        case (Cons rep rest)
        then show ?thesis
          using Inr callback_not_weak [of P "source (credentials ctx)" "serverSignature cf" rep rest tail]
          unfolding assms(6) by (simp add: continue_reply)
      qed
    qed
  qed
  have no_r: "run = \<lparr>cache = c, submitted = [], outcome = Thrown ''TypeError''\<rparr>"
    if "\<not> weak" "d ''r'' = None"
    using clientFinal_no_r [OF pre, of c] that unfolding assms(3,5,6) by (simp add: continue_stop)
  have bad_nonce: "run = \<lparr>cache = c, submitted = [],
                   outcome = CallbackError (MongoError (''Server returned an invalid nonce: '' @ r))\<rparr>"
    if "\<not> weak" "d ''r'' = Some r" "startsWith r ''nonce''"
    using clientFinal_bad_nonce [OF pre, of r c] that unfolding assms(3,5,6) by (simp add: continue_stop)
  have no_s: "run = \<lparr>cache = c, submitted = [], outcome = Thrown ''TypeError''\<rparr>"
    if "\<not> weak" "d ''r'' = Some r" "\<not> startsWith r ''nonce''" "d ''s'' = None"
    using clientFinal_no_s [OF pre, of r c] that unfolding assms(3,5,6) by (simp add: continue_stop)
  have throws: "run = \<lparr>cache = c, submitted = [], outcome = Thrown ''pbkdf2Sync''\<rparr>"
    if "\<not> weak" "d ''r'' = Some r" "\<not> startsWith r ''nonce''" "d ''s'' = Some s"
      "HI_number P c pp (fromBase64 P s) it m = None"
    using clientFinal_throws [OF pre, of r s c] that unfolding assms(3,5,6) by (simp add: continue_stop)
  have accepted: "cache run = c' \<and>
            (\<exists>later. submitted run =
               (ns, SaslContinue (conversationId response)
                  (utf8 (''c=biws,r='' @ r @ '',p='' @ xor clientKey (HMAC P m storedKey (utf8 authMessage)))))
               # later)"
    if "\<not> weak" "d ''r'' = Some r" "\<not> startsWith r ''nonce''" "d ''s'' = Some s"
      "HI_number P c pp (fromBase64 P s) it m = Some (c', sp)"
  proof -
    have cf: "clientFinal P c m response ctx =
           Inr \<lparr>final_cache = c',
                saslContinueCmd = SaslContinue (conversationId response)
                  (utf8 (''c=biws,r='' @ r @ '',p='' @ xor clientKey (HMAC P m storedKey (utf8 authMessage)))),
                serverSignature = HMAC P m (HMAC P m sp (utf8 ''Server Key'')) (utf8 authMessage)\<rparr>"
      using that unfolding assms(3,5)
      by (intro clientFinal_success [OF pre _ _ _ _ _ assms(8,9) refl assms(10)]) simp_all
    show ?thesis
      unfolding assms(6,7)
      by (cases replies) (simp_all add: continue_pending [OF cf] continue_reply [OF cf])
  qed
  show ?thesis
    using w rejected not_error no_r bad_nonce no_s throws accepted by blast
qed

text \<open>Claim C6, amended, at \<^verbatim>\<open>i=4095\<close> (rejected), at \<^verbatim>\<open>i=4096\<close> (accepted: the command is
  submitted) and at \<^verbatim>\<open>i=0\<close> (not rejected: \<open>HI\<close> is called and \<open>pbkdf2Sync\<close> throws).\<close>

theorem iterations_amended_witness:
  "truthy (Exact 4095) \<and> number_less (Exact 4095) 4096 \<and>
   continueScramConversation test_platform empty_cache sha1
       (server_first ''r=AQIDxyz,s=QUJD,i=4095'') example_context []
     = \<lparr>cache = empty_cache, submitted = [],
        outcome = CallbackError (MongoError ''Server returned an invalid iteration count 4095'')\<rparr> \<and>
   \<not> (truthy (Exact 4096) \<and> number_less (Exact 4096) 4096) \<and>
   (\<exists>later. submitted (continueScramConversation test_platform empty_cache sha1
       (server_first ''r=AQIDxyz,s=QUJD,i=4096'') example_context [])
     = (''admin.$cmd'', SaslContinue 1 (utf8 ''c=biws,r=AQIDxyz,p=1NTU1NTU1NTU1NTU1NTU1NTU1NQ='')) # later) \<and>
   \<not> (truthy (Exact 0) \<and> number_less (Exact 0) 4096) \<and>
   continueScramConversation test_platform empty_cache sha1
       (server_first ''r=AQIDxyz,s=QUJD,i=0'') example_context []
     = \<lparr>cache = empty_cache, submitted = [], outcome = Thrown ''pbkdf2Sync''\<rparr>"
proof -
  note low = iterations_amended [OF example_nonce example_password refl refl refl refl refl refl refl refl,
      where response = "server_first ''r=AQIDxyz,s=QUJD,i=4095''" and c = empty_cache and replies = "[]"]
  note ok = iterations_amended [OF example_nonce example_password refl refl refl refl refl
      example_authMessage(1) example_keys(1) example_keys(3),
      where c = empty_cache and replies = "[]" and s = "''QUJD''"
        and c' = "\<lparr>hiCache = (hiCache empty_cache)
               (HI_key (replicate 32 CHR ''6'') [65, 66, 67] (Some 4096) := Some (replicate 20 135)),
             hiCacheCount = hiCacheCount empty_cache + 1\<rparr>"]
  note zero = iterations_amended [OF example_nonce example_password refl refl refl refl refl refl refl refl,
      where response = "server_first ''r=AQIDxyz,s=QUJD,i=0''" and c = empty_cache and replies = "[]"
        and r = "''AQIDxyz''" and s = "''QUJD''"]
  have 1: "continueScramConversation test_platform empty_cache sha1
       (server_first ''r=AQIDxyz,s=QUJD,i=4095'') example_context []
     = \<lparr>cache = empty_cache, submitted = [],
        outcome = CallbackError (MongoError ''Server returned an invalid iteration count 4095'')\<rparr>"
    using low example_not_weak(4) by (simp add: example_i(3) example_4095)
  have 2: "\<exists>later. submitted (continueScramConversation test_platform empty_cache sha1
       (server_first ''r=AQIDxyz,s=QUJD,i=4096'') example_context [])
     = (''admin.$cmd'', SaslContinue 1 (utf8 ''c=biws,r=AQIDxyz,p=1NTU1NTU1NTU1NTU1NTU1NTU1NQ='')) # later"
    using ok example_not_weak(1) example_not_nonce(1) example_HI
    by (simp add: example_i(1) example_r(1) example_s(1) example_source
        example_signatures(1) example_conversationId)
  have 3: "continueScramConversation test_platform empty_cache sha1
       (server_first ''r=AQIDxyz,s=QUJD,i=0'') example_context []
     = \<lparr>cache = empty_cache, submitted = [], outcome = Thrown ''pbkdf2Sync''\<rparr>"
    using zero example_not_weak(2) example_not_nonce(1) example_HI_throws(1)
    by (simp add: example_i(4) example_r(3) example_s(3))
  show ?thesis
    using 1 2 3 example_not_weak by simp
qed

subsection \<open>The nonce of the server\<close>

text \<open>Claim C5, at an input where the code departs from it. The client nonce is \<^verbatim>\<open>AQID\<close>
  in base64 and the server answers with \<^verbatim>\<open>r=XXXXxyz\<close>, which does not start with it. The
  run does not fail: it submits the \<^verbatim>\<open>saslContinue\<close> command with a proof for that nonce
  and waits for the reply. The source only tests \<^verbatim>\<open>rnonce.startsWith('nonce')\<close>.\<close>

theorem foreign_nonce_accepted:
  "\<not> startsWith ''XXXXxyz'' (toBase64 [1, 2, 3]) \<and>
   submitted (continueScramConversation test_platform empty_cache sha1
       (server_first ''r=XXXXxyz,s=QUJD,i=4096'') example_context [])
     = [(''admin.$cmd'', SaslContinue 1 (utf8 ''c=biws,r=XXXXxyz,p=UlJSUlJSUlJSUlJSUlJSUlJSUlI=''))] \<and>
   outcome (continueScramConversation test_platform empty_cache sha1
       (server_first ''r=XXXXxyz,s=QUJD,i=4096'') example_context []) = Pending"
  using example_foreign by (simp add: continue_pending [OF foreign_clientFinal] example_source)

subsection \<open>The empty password\<close>

text \<open>Claim C8, refuted as stated: with SHA-1 and an empty password \<open>executeScram\<close> submits
  the \<^verbatim>\<open>saslStart\<close> command first. The error of \<open>passwordDigest\<close> comes after the round
  trip, when the reply is handled; while the server has not answered there is no error.\<close>

theorem empty_password_counterexample:
  "submitted (executeScram test_platform empty_cache sha1 empty_password_context
      [Result (server_first ''r=AQIDxyz,s=QUJD,i=4096'')])
     = [(''admin.$cmd'', SaslStart ''SCRAM-SHA-1'' (utf8 ''n,,n=user,r=AQID''))] \<and>
   outcome (executeScram test_platform empty_cache sha1 empty_password_context
      [Result (server_first ''r=AQIDxyz,s=QUJD,i=4096'')])
     = CallbackError (MongoError ''password cannot be empty'') \<and>
   outcome (executeScram test_platform empty_cache sha1 empty_password_context []) = Pending"
  by (simp add: executeScram_def continueScramConversation_def clientFinal_def
      processPassword_def passwordDigest_def makeFirstMessage_def clientFirstMessageBare_def
      cleanUsername_def utf8_def b64_def b64chars_def
      empty_password_context_def server_first_def)


text \<open>Claim C8, amended. With SHA-1, a nonce and an empty password, \<open>executeScram\<close> submits
  exactly the \<^verbatim>\<open>saslStart\<close> command; the attempt then ends with the error of that round
  trip if there is one, and with \<^verbatim>\<open>password cannot be empty\<close> otherwise, and no
  \<^verbatim>\<open>saslContinue\<close> is submitted. \<open>continueScramConversation\<close>, the entry of the
  speculative path, fails with that error before any command. User name and password are
  strings by their type.\<close>

theorem empty_password_amended:
  "nonce ctx = Some nb \<Longrightarrow> password (credentials ctx) = [] \<Longrightarrow>
   submitted (executeScram P c sha1 ctx replies) =
     [(source (credentials ctx) @ ''.$cmd'', makeFirstMessage sha1 (credentials ctx) nb)] \<and>
   outcome (executeScram P c sha1 ctx replies) =
     (case replies of
        [] \<Rightarrow> Pending
      | rep # rest \<Rightarrow>
          (case resolveError rep of
             Some err \<Rightarrow> CallbackError err
           | None \<Rightarrow> CallbackError (MongoError ''password cannot be empty''))) \<and>
   continueScramConversation P c sha1 response ctx replies' =
     \<lparr>cache = c, submitted = [], outcome = CallbackError (MongoError ''password cannot be empty'')\<rparr>"
  by (cases replies; cases "hd replies")
     (simp_all add: executeScram_def continueScramConversation_def clientFinal_def
        processPassword_def passwordDigest_def)


text \<open>Claim C8, amended, for the example user with an empty password: a reply of the server,
  a failure of the connection, and the speculative path.\<close>

theorem empty_password_amended_witness:
  "nonce empty_password_context = Some [1, 2, 3] \<and>
   password (credentials empty_password_context) = [] \<and>
   submitted (executeScram test_platform empty_cache sha1 empty_password_context
       [Result (server_first ''r=AQIDxyz,s=QUJD,i=4096'')])
     = [(''admin.$cmd'', makeFirstMessage sha1 (credentials empty_password_context) [1, 2, 3])] \<and>
   outcome (executeScram test_platform empty_cache sha1 empty_password_context
       [Result (server_first ''r=AQIDxyz,s=QUJD,i=4096'')])
     = CallbackError (MongoError ''password cannot be empty'') \<and>
   outcome (executeScram test_platform empty_cache sha1 empty_password_context [Failure ''closed''])
     = CallbackError (ConnectionError ''closed'') \<and>
   submitted (continueScramConversation test_platform empty_cache sha1
       (server_first ''r=AQIDxyz,s=QUJD,i=4096'') empty_password_context []) = []"
  using
    empty_password_amended [of empty_password_context "[1, 2, 3]" test_platform empty_cache
      "[Result (server_first ''r=AQIDxyz,s=QUJD,i=4096'')]"
      "server_first ''r=AQIDxyz,s=QUJD,i=4096''" "[]"]
    empty_password_amended [of empty_password_context "[1, 2, 3]" test_platform empty_cache
      "[Failure ''closed'']" "server_first ''r=AQIDxyz,s=QUJD,i=4096''" "[]"]
  by (simp add: empty_password_context_def server_first_def)


subsection \<open>The signature of the server\<close>

text \<open>Claim C3. Once the first \<^verbatim>\<open>saslContinue\<close> is submitted and its reply is a document
  without error whose payload has a \<^verbatim>\<open>v\<close> attribute, the decoded \<^verbatim>\<open>v\<close> is compared
  with the expected server signature before anything else is sent. On a mismatch the
  attempt fails with \<^verbatim>\<open>Server returned an invalid signature\<close> and nothing more is
  submitted; on a match with \<^verbatim>\<open>done\<close> false exactly one \<^verbatim>\<open>saslContinue\<close> with an empty
  payload follows, whose reply is the outcome; on a match with \<^verbatim>\<open>done\<close> true or absent
  the attempt succeeds with the reply and nothing more is submitted.\<close>

theorem server_signature_checked:
  assumes "clientFinal P c m response ctx = Inr cf"
    and "\<not> has_err r"
    and "parsePayload (Binary_value (payload r)) ''v'' = Some v"
    and "ns = source (credentials ctx) @ ''.$cmd''"
    and "run = continueScramConversation P c m response ctx (Result r # rest)"
  shows "(fromBase64 P v \<noteq> serverSignature cf \<longrightarrow>
            submitted run = [(ns, saslContinueCmd cf)] \<and>
            outcome run = CallbackError (MongoError ''Server returned an invalid signature'')) \<and>
         (fromBase64 P v = serverSignature cf \<and> doc_done r = Some False \<longrightarrow>
            submitted run = [(ns, saslContinueCmd cf), (ns, SaslContinue (conversationId r) [])] \<and>
            outcome run = (case rest of [] \<Rightarrow> Pending | rep2 # later \<Rightarrow> CallbackReply rep2)) \<and>
         (fromBase64 P v = serverSignature cf \<and> doc_done r \<noteq> Some False \<longrightarrow>
            submitted run = [(ns, saslContinueCmd cf)] \<and> outcome run = CallbackResult r)"
  using assms by (simp add: continue_reply callback_cases)


text \<open>Claim C3 on the example run: a signature that differs in one bit, the right signature
  with \<^verbatim>\<open>done\<close> false, and the right signature with \<^verbatim>\<open>done\<close> true.\<close>

theorem server_signature_checked_witness:
  "outcome (continueScramConversation test_platform empty_cache sha1
       (server_first ''r=AQIDxyz,s=QUJD,i=4096'') example_context
       [Result (server_final ''v=MTExMTExMTExMTExMTExMTExMTA='' (Some False))])
     = CallbackError (MongoError ''Server returned an invalid signature'') \<and>
   submitted (continueScramConversation test_platform empty_cache sha1
       (server_first ''r=AQIDxyz,s=QUJD,i=4096'') example_context
       [Result (server_final ''v=MTExMTExMTExMTExMTExMTExMTA='' (Some False))])
     = [(''admin.$cmd'', SaslContinue 1 (utf8 ''c=biws,r=AQIDxyz,p=1NTU1NTU1NTU1NTU1NTU1NTU1NQ=''))] \<and>
   submitted (continueScramConversation test_platform empty_cache sha1
       (server_first ''r=AQIDxyz,s=QUJD,i=4096'') example_context
       [Result (server_final ''v=MTExMTExMTExMTExMTExMTExMTE='' (Some False))])
     = [(''admin.$cmd'', SaslContinue 1 (utf8 ''c=biws,r=AQIDxyz,p=1NTU1NTU1NTU1NTU1NTU1NTU1NQ='')),
        (''admin.$cmd'', SaslContinue 1 [])] \<and>
   outcome (continueScramConversation test_platform empty_cache sha1
       (server_first ''r=AQIDxyz,s=QUJD,i=4096'') example_context
       [Result (server_final ''v=MTExMTExMTExMTExMTExMTExMTE='' (Some False))]) = Pending \<and>
   submitted (continueScramConversation test_platform empty_cache sha1
       (server_first ''r=AQIDxyz,s=QUJD,i=4096'') example_context
       [Result (server_final ''v=MTExMTExMTExMTExMTExMTExMTE='' (Some True))])
     = [(''admin.$cmd'', SaslContinue 1 (utf8 ''c=biws,r=AQIDxyz,p=1NTU1NTU1NTU1NTU1NTU1NTU1NQ=''))] \<and>
   outcome (continueScramConversation test_platform empty_cache sha1
       (server_first ''r=AQIDxyz,s=QUJD,i=4096'') example_context
       [Result (server_final ''v=MTExMTExMTExMTExMTExMTExMTE='' (Some True))])
     = CallbackResult (server_final ''v=MTExMTExMTExMTExMTExMTExMTE='' (Some True))"
  using
    server_signature_checked [OF example_clientFinal example_no_err example_v(2) refl refl,
      of "Some False" "[]"]
    server_signature_checked [OF example_clientFinal example_no_err example_v(1) refl refl,
      of "Some False" "[]"]
    server_signature_checked [OF example_clientFinal example_no_err example_v(1) refl refl,
      of "Some True" "[]"]
    example_tampered
  by (simp add: example_decode example_source server_final_def)


subsection \<open>The authMessage\<close>

text \<open>Claim C2, refuted as stated: the server-first payload holds the byte E9. The
  \<open>authMessage\<close> that goes into both HMACs has the two bytes C3 A9 in its place, so it is not
  the client-first-bare message, the raw payload and \<^verbatim>\<open>c=biws,r=AQIDxyz\<close> joined by commas.\<close>

theorem authMessage_latin1_counterexample:
  "clientFinal test_platform empty_cache sha1 latin1_server_first example_context =
     Inr \<lparr>final_cache =
            \<lparr>hiCache = (hiCache empty_cache)
               (HI_key (replicate 32 CHR ''6'') [65, 66, 67] (Some 4096) := Some (replicate 20 135)),
             hiCacheCount = hiCacheCount empty_cache + 1\<rparr>,
          saslContinueCmd = SaslContinue 1
            (utf8 (''c=biws,r=AQIDxyz,p='' @ xor (replicate 20 133)
               (HMAC test_platform sha1 (replicate 20 245)
                  (utf8 ''n=user,r=AQID,r=AQIDxyz,s=QUJD,i=4096,x='' @ [0xC3, 0xA9] @ utf8 '',c=biws,r=AQIDxyz'')))),
          serverSignature = HMAC test_platform sha1 (replicate 20 205)
             (utf8 ''n=user,r=AQID,r=AQIDxyz,s=QUJD,i=4096,x='' @ [0xC3, 0xA9] @ utf8 '',c=biws,r=AQIDxyz'')\<rparr> \<and>
   clientFirstMessageBare ''user'' [1, 2, 3] @ utf8 '','' @ payload latin1_server_first
       @ utf8 '','' @ utf8 ''c=biws,r=AQIDxyz'' =
     utf8 ''n=user,r=AQID,r=AQIDxyz,s=QUJD,i=4096,x='' @ [0xE9] @ utf8 '',c=biws,r=AQIDxyz'' \<and>
   utf8 ''n=user,r=AQID,r=AQIDxyz,s=QUJD,i=4096,x='' @ [0xC3, 0xA9] @ utf8 '',c=biws,r=AQIDxyz'' \<noteq>
     utf8 ''n=user,r=AQID,r=AQIDxyz,s=QUJD,i=4096,x='' @ [0xE9] @ utf8 '',c=biws,r=AQIDxyz''"
proof -
  have "clientFinal test_platform empty_cache sha1 latin1_server_first example_context =
     Inr \<lparr>final_cache =
            \<lparr>hiCache = (hiCache empty_cache)
               (HI_key (replicate 32 CHR ''6'') [65, 66, 67] (Some 4096) := Some (replicate 20 135)),
             hiCacheCount = hiCacheCount empty_cache + 1\<rparr>,
          saslContinueCmd = SaslContinue (conversationId latin1_server_first)
            (utf8 (''c=biws,r='' @ ''AQIDxyz'' @ '',p='' @ xor (replicate 20 133)
               (HMAC test_platform sha1 (replicate 20 245)
                  (utf8 (''n=user,r=AQID,r=AQIDxyz,s=QUJD,i=4096,x='' @ [CHR 0xC3, CHR 0xA9] @ '',c=biws,r=AQIDxyz''))))),
          serverSignature = HMAC test_platform sha1 (replicate 20 205)
             (utf8 (''n=user,r=AQID,r=AQIDxyz,s=QUJD,i=4096,x='' @ [CHR 0xC3, CHR 0xA9] @ '',c=biws,r=AQIDxyz''))\<rparr>"
    by (rule clientFinal_success [OF example_nonce example_password latin1_parsed(1) example_not_weak(1)
      latin1_parsed(2) example_not_nonce(1) latin1_parsed(3) example_HI latin1_authMessage example_keys])
  then show ?thesis
    unfolding latin1_bytes(1) latin1_conversationId
    using latin1_bytes(2,3) by simp
qed

text \<open>Claim C2, amended. On the path that reaches the \<^verbatim>\<open>saslContinue\<close> command, the proof in
  the command is the XOR of the client key with the HMAC of one \<open>authMessage\<close> under the
  stored key, and the expected server signature is the HMAC of the same \<open>authMessage\<close> under
  the server key. The \<open>authMessage\<close> is the client-first-bare message, the payload of the
  server-first message as \<^verbatim>\<open>payload.value()\<close> gives it, and \<^verbatim>\<open>c=biws,r=\<close> followed by the
  \<^verbatim>\<open>r\<close> that the engine read from the payload, joined by commas. In its bytes a payload byte
  below 80 (hexadecimal) stands as it is and a byte from 80 on stands as two bytes, so the
  payload part is the raw payload exactly when every byte of the payload is below 80.\<close>

theorem authMessage_composition:
  assumes "nonce ctx = Some nb"
    and "processPassword P m (cleanUsername (username (credentials ctx))) (password (credentials ctx)) = Inr pp"
    and "parseInt (parsePayload (Binary_value (payload response)) ''i'') = it"
    and "\<not> (truthy it \<and> number_less it 4096)"
    and "parsePayload (Binary_value (payload response)) ''r'' = Some r"
    and "\<not> startsWith r ''nonce''"
    and "parsePayload (Binary_value (payload response)) ''s'' = Some s"
    and "HI_number P c pp (fromBase64 P s) it m = Some (c', sp)"
    and "authMessage = toString (clientFirstMessageBare (cleanUsername (username (credentials ctx))) nb)
            @ '','' @ Binary_value (payload response) @ '','' @ ''c=biws,r='' @ r"
    and "clientKey = HMAC P m sp (utf8 ''Client Key'')"
    and "serverKey = HMAC P m sp (utf8 ''Server Key'')"
    and "storedKey = H P m clientKey"
  shows "clientFinal P c m response ctx =
           Inr \<lparr>final_cache = c',
                saslContinueCmd = SaslContinue (conversationId response)
                  (utf8 (''c=biws,r='' @ r @ '',p='' @ xor clientKey (HMAC P m storedKey (utf8 authMessage)))),
                serverSignature = HMAC P m serverKey (utf8 authMessage)\<rparr> \<and>
         utf8 authMessage =
           clientFirstMessageBare (cleanUsername (username (credentials ctx))) nb
             @ utf8 '','' @ utf8 (Binary_value (payload response)) @ utf8 '','' @ utf8 ''c=biws,r='' @ utf8 r \<and>
         utf8 (Binary_value (payload response)) =
           concat (map (\<lambda>b. if b < 0x80 then [b] else [0xC0 OR drop_bit 6 b, 0x80 OR (b AND 0x3F)])
             (payload response)) \<and>
         (utf8 (Binary_value (payload response)) = payload response \<longleftrightarrow>
            (\<forall>b \<in> set (payload response). b < 0x80))"
proof (intro conjI)
  show "clientFinal P c m response ctx =
           Inr \<lparr>final_cache = c',
                saslContinueCmd = SaslContinue (conversationId response)
                  (utf8 (''c=biws,r='' @ r @ '',p='' @ xor clientKey (HMAC P m storedKey (utf8 authMessage)))),
                serverSignature = HMAC P m serverKey (utf8 authMessage)\<rparr>"
    by (rule clientFinal_success [OF assms])
  show "utf8 authMessage =
           clientFirstMessageBare (cleanUsername (username (credentials ctx))) nb
             @ utf8 '','' @ utf8 (Binary_value (payload response)) @ utf8 '','' @ utf8 ''c=biws,r='' @ utf8 r"
    unfolding assms(9) by (simp only: utf8_append utf8_toString)
  show "utf8 (Binary_value (payload response)) =
           concat (map (\<lambda>b. if b < 0x80 then [b] else [0xC0 OR drop_bit 6 b, 0x80 OR (b AND 0x3F)])
             (payload response))"
    by (rule utf8_Binary_value)
  show "utf8 (Binary_value (payload response)) = payload response \<longleftrightarrow>
            (\<forall>b \<in> set (payload response). b < 0x80)"
    by (rule utf8_Binary_value_raw_iff)
qed

text \<open>Claim C2, amended, on the example run, whose payload is ASCII.\<close>

theorem authMessage_composition_witness:
  "clientFinal test_platform empty_cache sha1 (server_first ''r=AQIDxyz,s=QUJD,i=4096'') example_context =
     Inr \<lparr>final_cache =
            \<lparr>hiCache = (hiCache empty_cache)
               (HI_key (replicate 32 CHR ''6'') [65, 66, 67] (Some 4096) := Some (replicate 20 135)),
             hiCacheCount = hiCacheCount empty_cache + 1\<rparr>,
          saslContinueCmd = SaslContinue 1
            (utf8 (''c=biws,r=AQIDxyz,p='' @ xor (replicate 20 133)
               (HMAC test_platform sha1 (replicate 20 245)
                  (utf8 ''n=user,r=AQID,r=AQIDxyz,s=QUJD,i=4096,c=biws,r=AQIDxyz'')))),
          serverSignature = HMAC test_platform sha1 (replicate 20 205)
             (utf8 ''n=user,r=AQID,r=AQIDxyz,s=QUJD,i=4096,c=biws,r=AQIDxyz'')\<rparr> \<and>
   utf8 ''n=user,r=AQID,r=AQIDxyz,s=QUJD,i=4096,c=biws,r=AQIDxyz'' =
     utf8 ''n=user,r=AQID'' @ utf8 '','' @ payload (server_first ''r=AQIDxyz,s=QUJD,i=4096'')
       @ utf8 '','' @ utf8 ''c=biws,r=AQIDxyz'' \<and>
   list_all (\<lambda>b. b < 0x80) (payload (server_first ''r=AQIDxyz,s=QUJD,i=4096'')) \<and>
   utf8 (Binary_value (payload (server_first ''r=AQIDxyz,s=QUJD,i=4096''))) =
     payload (server_first ''r=AQIDxyz,s=QUJD,i=4096'')"
proof -
  note inst = authMessage_composition [OF example_nonce example_password example_i(1) example_not_weak(1)
      example_r(1) example_not_nonce(1) example_s(1) example_HI example_authMessage(1) example_keys]
  have raw: "utf8 (Binary_value (payload (server_first ''r=AQIDxyz,s=QUJD,i=4096''))) =
     payload (server_first ''r=AQIDxyz,s=QUJD,i=4096'')"
  proof -
    have "\<forall>b \<in> set (payload (server_first ''r=AQIDxyz,s=QUJD,i=4096'')). b < 0x80"
      using example_ascii by (simp only: list_all_iff)
    then show ?thesis
      by (rule iffD2 [OF inst [THEN conjunct2, THEN conjunct2, THEN conjunct2]])
  qed
  have "clientFinal test_platform empty_cache sha1 (server_first ''r=AQIDxyz,s=QUJD,i=4096'') example_context =
     Inr \<lparr>final_cache =
            \<lparr>hiCache = (hiCache empty_cache)
               (HI_key (replicate 32 CHR ''6'') [65, 66, 67] (Some 4096) := Some (replicate 20 135)),
             hiCacheCount = hiCacheCount empty_cache + 1\<rparr>,
          saslContinueCmd = SaslContinue 1
            (utf8 (''c=biws,r=AQIDxyz,p='' @ xor (replicate 20 133)
               (HMAC test_platform sha1 (replicate 20 245)
                  (utf8 ''n=user,r=AQID,r=AQIDxyz,s=QUJD,i=4096,c=biws,r=AQIDxyz'')))),
          serverSignature = HMAC test_platform sha1 (replicate 20 205)
             (utf8 ''n=user,r=AQID,r=AQIDxyz,s=QUJD,i=4096,c=biws,r=AQIDxyz'')\<rparr>"
    using inst [THEN conjunct1] by (simp add: example_conversationId)
  then show ?thesis
    using raw example_ascii example_bytes by simp
qed

end
